theory Spec2Isabelle
  imports Complex_Main "HOL-Library.Sublist"
begin

section \<open>Python values\<close>

text \<open>
  The adapter \<^verbatim>\<open>abogen_gradio.py\<close> is modelled by state passing. A raised
  \<^verbatim>\<open>Exception\<close> is a value: \<open>exn_str\<close> is what \<^verbatim>\<open>str(e)\<close> renders and
  \<open>format_exc\<close> what \<^verbatim>\<open>traceback.format_exc()\<close> renders while it is handled. Both
  \<^verbatim>\<open>except\<close> clauses of the file name \<^verbatim>\<open>Exception\<close>; the values of \<open>exn\<close> are
  the instances of that class (interpreter exits such as \<^verbatim>\<open>KeyboardInterrupt\<close> and
  \<^verbatim>\<open>SystemExit\<close> are not instances of it and are not modelled).
\<close>

datatype exn = Exn (exn_str: string) (format_exc: string)

definition newline :: string where
  "newline = [CHR 0x0A]"

text \<open>
  Text is a \<open>string\<close>: a list of \<open>char\<close>, each a code point below 256.
  \<^verbatim>\<open>str.isspace\<close> on these code points holds of TAB, LF, VT, FF, CR, FS, GS, RS, US,
  SPACE, NEL and NBSP.
\<close>

definition isspace :: "char \<Rightarrow> bool" where
  "isspace c = (of_char c \<in> {9, 10, 11, 12, 13, 28, 29, 30, 31, 32, 133, 160 :: nat})"

text \<open>\<^verbatim>\<open>s.strip()\<close>: leading and trailing whitespace removed.\<close>

definition strip :: "string \<Rightarrow> string" where
  "strip s = rev (dropWhile isspace (rev (dropWhile isspace s)))"

text \<open>\<^verbatim>\<open>sep.join(xs)\<close>.\<close>

fun join :: "string \<Rightarrow> string list \<Rightarrow> string" where
  "join sep [] = []"
| "join sep [x] = x"
| "join sep (x # y # ys) = x @ sep @ join sep (y # ys)"

text \<open>
  \<^verbatim>\<open>s.split(sep)[0]\<close> for a non-empty separator: the text before the first occurrence
  of \<open>sep\<close>, all of \<open>s\<close> when there is none.
\<close>

fun split_first :: "string \<Rightarrow> string \<Rightarrow> string" where
  "split_first sep [] = []"
| "split_first sep (c # cs) = (if prefix sep (c # cs) then [] else c # split_first sep cs)"

text \<open>\<^verbatim>\<open>str(n)\<close> of an integer: its decimal digits, with a sign when negative.\<close>

fun digits :: "nat \<Rightarrow> string" where
  "digits n = (if n < 10 then [char_of (48 + n)] else digits (n div 10) @ [char_of (48 + n mod 10)])"

definition str_int :: "int \<Rightarrow> string" where
  "str_int i = (if i < 0 then CHR ''-'' # digits (nat (- i)) else digits (nat i))"

section \<open>The notification channel: \<^verbatim>\<open>MockSignal\<close>\<close>

text \<open>
  Every piece of state a subscriber can touch extends \<open>world\<close>, which holds the lines
  written by \<^verbatim>\<open>print\<close>. A callback receives the positional payload and the state; it
  returns the state it leaves behind and \<open>None\<close> when it returned, \<open>Some e\<close> when it
  raised \<open>e\<close>. The subscriber list of a channel is not part of that state: no
  subscriber of this program registers or removes subscribers.
\<close>

record world =
  stdout :: "string list"

definition print :: "string \<Rightarrow> 'z world_scheme \<Rightarrow> 'z world_scheme" where
  "print line w = w\<lparr>stdout := stdout w @ [line]\<rparr>"

type_synonym ('a, 's) callback = "'a \<Rightarrow> 's \<Rightarrow> exn option \<times> 's"

record ('a, 's) MockSignal =
  callbacks :: "('a, 's) callback list"

text \<open>\<^verbatim>\<open>MockSignal.__init__\<close>: \<^verbatim>\<open>self.callbacks = []\<close>.\<close>

definition MockSignal_init :: "('a, 's) MockSignal" where
  "MockSignal_init = \<lparr>callbacks = []\<rparr>"

text \<open>\<^verbatim>\<open>MockSignal.connect\<close>: \<^verbatim>\<open>self.callbacks.append(callback)\<close>.\<close>

definition connect :: "('a, 's) MockSignal \<Rightarrow> ('a, 's) callback \<Rightarrow> ('a, 's) MockSignal" where
  "connect self callback = self\<lparr>callbacks := callbacks self @ [callback]\<rparr>"

text \<open>
  \<^verbatim>\<open>MockSignal.emit\<close>: the \<^verbatim>\<open>for\<close> loop over \<^verbatim>\<open>self.callbacks\<close>, each call inside
  \<^verbatim>\<open>try\<close>/\<^verbatim>\<open>except Exception\<close> whose handler prints the report.
\<close>

fun emit_loop :: "('a, 'z world_scheme) callback list \<Rightarrow> 'a \<Rightarrow> 'z world_scheme \<Rightarrow> 'z world_scheme" where
  "emit_loop [] args w = w"
| "emit_loop (callback # rest) args w =
     (case callback args w of
        (None, w') \<Rightarrow> emit_loop rest args w'
      | (Some e, w') \<Rightarrow> emit_loop rest args (print (''Error in mock signal callback: '' @ exn_str e) w'))"

definition emit :: "('a, 'z world_scheme) MockSignal \<Rightarrow> 'a \<Rightarrow> 'z world_scheme \<Rightarrow> 'z world_scheme" where
  "emit self args w = emit_loop (callbacks self) args w"

text \<open>
  A journal of invocations, for stating which subscribers a publish reaches. A subscriber
  \<open>journals i\<close> when every call of it appends its registration number \<open>i\<close> and the
  payload it was given to the journal; whatever else it does to the state, and whether it
  returns or raises, is free. It \<open>ends_with out\<close> when every call of it ends as \<open>out\<close>
  says (\<open>None\<close>: it returns, \<open>Some e\<close>: it raises \<open>e\<close>) and prints nothing itself.
  \<open>probe i out\<close> is the subscriber that does that and nothing more.
\<close>

record 'a audit = world +
  journal :: "(nat \<times> 'a) list"

definition journals :: "nat \<Rightarrow> ('a, ('a, 'z) audit_scheme) callback \<Rightarrow> bool" where
  "journals i cb = (\<forall>a w. journal (snd (cb a w)) = journal w @ [(i, a)])"

definition ends_with :: "exn option \<Rightarrow> ('a, 'z world_scheme) callback \<Rightarrow> bool" where
  "ends_with out cb = (\<forall>a w. fst (cb a w) = out \<and> stdout (snd (cb a w)) = stdout w)"

definition probe :: "nat \<Rightarrow> exn option \<Rightarrow> ('a, ('a, 'z) audit_scheme) callback" where
  "probe i out = (\<lambda>a w. (out, w\<lparr>journal := journal w @ [(i, a)]\<rparr>))"

text \<open>The line the handler of \<open>emit\<close> prints for a fault.\<close>

definition report :: "exn \<Rightarrow> string" where
  "report e = ''Error in mock signal callback: '' @ exn_str e"

section \<open>The state of the process\<close>

text \<open>
  The engine publishes a log line as a string or as a pair \<^verbatim>\<open>(msg, color)\<close>.
\<close>

datatype log_msg = Str string | Tuple string string

text \<open>
  The keyword arguments of the call \<^verbatim>\<open>ConversionThread(...)\<close>, one field for each
  keyword; the two pipeline objects are known by a number, the times and the speed are
  numbers.
\<close>

record ConversionThread_args =
  arg_file_name :: string
  arg_lang_code :: string
  arg_speed :: real
  arg_voice :: string
  arg_save_option :: string
  arg_output_folder :: string
  arg_subtitle_mode :: string
  arg_output_format :: string
  arg_np_module :: nat
  arg_kpipeline_class :: nat
  arg_start_time :: real
  arg_total_char_count :: nat
  arg_use_gpu :: bool
  arg_from_queue :: bool

text \<open>
  The attributes of a \<^verbatim>\<open>thread\<close> object that the handler and its subscribers read or
  write; \<open>thread_chapter_options_event\<close> is whether \<^verbatim>\<open>thread._chapter_options_event\<close>
  is set.
\<close>

record thread =
  thread_args :: ConversionThread_args
  thread_is_direct_text :: bool
  thread_subtitle_format :: string
  thread_merge_chapters_at_end :: bool
  thread_save_chapters_separately :: bool
  thread_replace_single_newlines :: bool
  thread_chapter_options_event :: bool

text \<open>
  An invocation of the handler that constructs a worker creates two objects of its own:
  the \<^verbatim>\<open>thread\<close> and the dictionary \<^verbatim>\<open>result_container\<close> (its two keys, \<open>None\<close> for
  Python's \<^verbatim>\<open>None\<close>). The closures \<^verbatim>\<open>on_finished\<close> and \<^verbatim>\<open>on_chapters_detected\<close> capture
  them, and they live as long as a closure does.
\<close>

record job =
  result_container_status :: "string option"
  result_container_path :: "string option"
  thread :: thread

text \<open>
  The calls the handler makes to its collaborators: \<^verbatim>\<open>load_numpy_kpipeline()\<close>,
  \<^verbatim>\<open>os.makedirs(folder, exist_ok=True)\<close>, \<^verbatim>\<open>ConversionThread(...)\<close> with its arguments,
  \<^verbatim>\<open>thread.start()\<close> with the thread object as it is then, and \<^verbatim>\<open>thread.join()\<close>.
\<close>

datatype call =
    Load
  | MakeDirs string
  | Construct ConversionThread_args
  | Start thread
  | Join

text \<open>
  The module keeps two globals, \<^verbatim>\<open>conversion_thread\<close> (never assigned) and \<^verbatim>\<open>logs\<close>.
  \<open>prog\<close> is the state of the process: the printed lines, \<^verbatim>\<open>logs\<close>, the calls made to
  collaborators so far, and the store of the objects the jobs created: \<open>jobs g k\<close> is
  the pair of objects at address \<open>k\<close>, and \<open>next_job g\<close> the first address not yet
  given to a job.
\<close>

record prog = world +
  logs :: "string list"
  calls :: "call list"
  jobs :: "nat \<Rightarrow> job"
  next_job :: nat

text \<open>The slice \<^verbatim>\<open>xs[-n:]\<close> for a positive \<open>n\<close>: the last \<open>n\<close> elements, or all of \<open>xs\<close>.\<close>

definition slice_last :: "nat \<Rightarrow> 'a list \<Rightarrow> 'a list" where
  "slice_last n xs = drop (length xs - n) xs"

text \<open>The text of a log message: \<^verbatim>\<open>msg[0]\<close> of a pair, then \<^verbatim>\<open>str\<close>.\<close>

definition text_of :: "log_msg \<Rightarrow> string" where
  "text_of msg = (case msg of Tuple m color \<Rightarrow> m | Str m \<Rightarrow> m)"

text \<open>
  \<^verbatim>\<open>log_callback\<close>: a pair is replaced by its first component, the text is appended,
  and \<^verbatim>\<open>logs[-1000:]\<close> is kept when the list has grown beyond 1000.
\<close>

definition log_callback :: "log_msg \<Rightarrow> 'z prog_scheme \<Rightarrow> 'z prog_scheme" where
  "log_callback msg g =
     (let g' = g\<lparr>logs := logs g @ [text_of msg]\<rparr>
      in if length (logs g') > 1000
         then g'\<lparr>logs := slice_last 1000 (logs g')\<rparr>
         else g')"

section \<open>The collaborators\<close>

text \<open>
  What the handler calls outside \<^verbatim>\<open>abogen_gradio.py\<close> is a parameter: each field of
  \<open>env\<close> is the outcome of one collaborator (\<open>Inl e\<close> or \<open>Some e\<close>: it raises \<open>e\<close>);
  \<open>gr_progress\<close> is the call of the \<^verbatim>\<open>gr.Progress\<close> object, \<open>Thread_start\<close> the
  start of the operating-system thread by \<^verbatim>\<open>MockQThread.start\<close>. The speed is a number
  already, so \<^verbatim>\<open>float(speed)\<close> returns it.

  Modelled from the spec: the conversion engine \<^verbatim>\<open>abogen.conversion.ConversionThread\<close>
  is not part of the sources. By sections 3, 4.2, 4.3 and 6 of the specification its
  worker reports through four notification channels, one per event type. The engine
  declares them with \<^verbatim>\<open>pyqtSignal\<close>, for which line 63 installs \<^verbatim>\<open>MockSignal\<close>; a
  \<^verbatim>\<open>MockSignal\<close> has no binding to an instance, so the four channels are four objects of
  the process, shared by every thread the handler constructs, and nothing disconnects a
  subscriber from them. After publishing "chapters detected" the worker blocks until
  the companion decision event of its thread is signalled (the handler's comment quotes
  the two lines: \<^verbatim>\<open>self.chapters_detected.emit(total_chapters)\<close>,
  \<^verbatim>\<open>self._chapter_options_event.wait()\<close>). A run of the engine is the finite list of
  notifications it publishes, and whether it then returns or raises; the event of a new
  thread is unset.
\<close>

datatype engine_step =
    Log_updated log_msg
  | Progress_updated int string
  | Chapters_detected int
  | Conversion_finished string "string option"

record env =
  load_numpy_kpipeline :: "exn + nat \<times> nat"
  os_getcwd :: "exn + string"
  os_makedirs :: "string \<Rightarrow> exn option"
  time_time :: real
  ConversionThread :: "ConversionThread_args \<Rightarrow> exn + (thread \<Rightarrow> engine_step list \<times> exn option)"
  Thread_start :: "exn option"
  gr_progress :: "real \<Rightarrow> string \<Rightarrow> exn option"

text \<open>\<^verbatim>\<open>os.path.join(a, b)\<close> on POSIX.\<close>

definition os_path_join :: "string \<Rightarrow> string \<Rightarrow> string" where
  "os_path_join a b =
     (if prefix ''/'' b then b
      else if a = [] \<or> last a = CHR ''/'' then a @ b
      else a @ ''/'' @ b)"

section \<open>The handler: \<^verbatim>\<open>run_conversion\<close>\<close>

text \<open>
  The four closures the handler defines, for the job whose objects are at address \<open>k\<close>.
  \<^verbatim>\<open>on_log\<close> captures nothing: it calls \<^verbatim>\<open>log_callback\<close>, which works on the global
  \<^verbatim>\<open>logs\<close>. \<^verbatim>\<open>on_progress\<close> captures the \<^verbatim>\<open>progress\<close> object of its invocation.
\<close>

definition on_finished :: "nat \<Rightarrow> (string \<times> string option, prog) callback" where
  "on_finished k = (\<lambda>(status, path) g.
     (let g1 = g\<lparr>jobs := (jobs g)(k := (jobs g k)\<lparr>result_container_status := Some status\<rparr>)\<rparr>;
          g2 = g1\<lparr>jobs := (jobs g1)(k := (jobs g1 k)\<lparr>result_container_path := path\<rparr>)\<rparr>
      in (None, g2)))"

definition on_log :: "(log_msg, prog) callback" where
  "on_log = (\<lambda>msg g. (None, log_callback msg g))"

definition on_progress :: "env \<Rightarrow> (int \<times> string, prog) callback" where
  "on_progress env = (\<lambda>(p, etr) g.
     (gr_progress env (real_of_int p / 100) (''Processing... ETR: '' @ etr), g))"

text \<open>An assignment to an attribute of the thread object at address \<open>k\<close>.\<close>

definition set_thread :: "nat \<Rightarrow> (thread \<Rightarrow> thread) \<Rightarrow> prog \<Rightarrow> prog" where
  "set_thread k f g = g\<lparr>jobs := (jobs g)(k := (jobs g k)\<lparr>thread := f (thread (jobs g k))\<rparr>)\<rparr>"

definition on_chapters_detected :: "nat \<Rightarrow> (int, prog) callback" where
  "on_chapters_detected k = (\<lambda>count g.
     (let g1 = print (''Chapters detected: '' @ str_int count) g;
          g2 = set_thread k (\<lambda>t. t\<lparr>thread_save_chapters_separately := False\<rparr>) g1;
          g3 = set_thread k (\<lambda>t. t\<lparr>thread_merge_chapters_at_end := True\<rparr>) g2;
          g4 = set_thread k (\<lambda>t. t\<lparr>thread_chapter_options_event := True\<rparr>) g3
      in (None, g4)))"

text \<open>
  The four channels of the engine, and \<open>fresh_signals\<close>, the channels as the import of
  the engine leaves them: no subscriber yet.
\<close>

record signals =
  conversion_finished :: "(string \<times> string option, prog) MockSignal"
  log_updated :: "(log_msg, prog) MockSignal"
  progress_updated :: "(int \<times> string, prog) MockSignal"
  chapters_detected :: "(int, prog) MockSignal"

definition fresh_signals :: signals where
  "fresh_signals =
     \<lparr>conversion_finished = MockSignal_init,
      log_updated = MockSignal_init,
      progress_updated = MockSignal_init,
      chapters_detected = MockSignal_init\<rparr>"

text \<open>
  The four \<^verbatim>\<open>connect\<close> calls of the handler (lines 215 to 217 and 240), on the channels
  as earlier jobs left them.
\<close>

definition connect_signals :: "env \<Rightarrow> nat \<Rightarrow> signals \<Rightarrow> signals" where
  "connect_signals env k sigs =
     \<lparr>conversion_finished = connect (conversion_finished sigs) (on_finished k),
      log_updated = connect (log_updated sigs) on_log,
      progress_updated = connect (progress_updated sigs) (on_progress env),
      chapters_detected = connect (chapters_detected sigs) (on_chapters_detected k)\<rparr>"

text \<open>
  The worker of the thread at address \<open>k\<close>, \<^verbatim>\<open>ConversionThread.run\<close> as
  \<^verbatim>\<open>MockQThread.start\<close> runs it: every notification is published with \<open>emit\<close>, which
  calls the subscribers on the worker's own thread of control. \<^verbatim>\<open>Event.wait()\<close> returns
  when the event of the thread is set; \<open>None\<close> is a worker blocked in it for ever.
\<close>

fun ConversionThread_run :: "signals \<Rightarrow> nat \<Rightarrow> engine_step list \<Rightarrow> prog \<Rightarrow> prog option" where
  "ConversionThread_run sigs k [] g = Some g"
| "ConversionThread_run sigs k (Log_updated msg # rest) g =
     ConversionThread_run sigs k rest (emit (log_updated sigs) msg g)"
| "ConversionThread_run sigs k (Progress_updated p etr # rest) g =
     ConversionThread_run sigs k rest (emit (progress_updated sigs) (p, etr) g)"
| "ConversionThread_run sigs k (Conversion_finished status path # rest) g =
     ConversionThread_run sigs k rest (emit (conversion_finished sigs) (status, path) g)"
| "ConversionThread_run sigs k (Chapters_detected total_chapters # rest) g =
     (let g' = emit (chapters_detected sigs) total_chapters g
      in if thread_chapter_options_event (thread (jobs g' k))
         then ConversionThread_run sigs k rest g'
         else None)"

text \<open>
  What an invocation of the handler comes to: it returns the pair (text, file), a fault
  leaves it, or it never returns.
\<close>

datatype result = Return string "string option" | Raise exn | Hang

text \<open>The handler of the outer \<^verbatim>\<open>try\<close>: \<^verbatim>\<open>f"Error: {e}\n{traceback.format_exc()}", None\<close>.\<close>

definition error_result :: "exn \<Rightarrow> result" where
  "error_result e = Return (''Error: '' @ exn_str e @ newline @ format_exc e) None"

text \<open>
  The keyword arguments of the call \<^verbatim>\<open>ConversionThread(...)\<close> (lines 177 to 192), and
  the thread object after the five assignments that follow it (lines 195 to 199).
\<close>

definition thread_kwargs :: "env \<Rightarrow> string \<Rightarrow> bool \<Rightarrow> string \<Rightarrow> string \<Rightarrow> string \<Rightarrow> real \<Rightarrow> string
    \<Rightarrow> string \<Rightarrow> string \<Rightarrow> nat \<Rightarrow> nat \<Rightarrow> ConversionThread_args" where
  "thread_kwargs env file_name is_direct_text text_input lang_code voice speed output_format
      subtitle_mode output_folder np_module kpipeline_class =
     \<lparr>arg_file_name = file_name,
      arg_lang_code = lang_code,
      arg_speed = speed,
      arg_voice = voice,
      arg_save_option = ''Choose output folder'',
      arg_output_folder = output_folder,
      arg_subtitle_mode = subtitle_mode,
      arg_output_format = output_format,
      arg_np_module = np_module,
      arg_kpipeline_class = kpipeline_class,
      arg_start_time = time_time env,
      arg_total_char_count = (if is_direct_text then length text_input else 1000),
      arg_use_gpu = True,
      arg_from_queue = False\<rparr>"

definition thread_attributes :: "ConversionThread_args \<Rightarrow> bool \<Rightarrow> string \<Rightarrow> thread" where
  "thread_attributes args is_direct_text subtitle_format =
     \<lparr>thread_args = args,
      thread_is_direct_text = is_direct_text,
      thread_subtitle_format = subtitle_format,
      thread_merge_chapters_at_end = True,
      thread_save_chapters_separately = False,
      thread_replace_single_newlines = False,
      thread_chapter_options_event = False\<rparr>"

text \<open>
  The body of the outer \<^verbatim>\<open>try\<close> (lines 176 to 254), on the channels \<open>sigs\<close> of the
  process. The new thread and the new \<^verbatim>\<open>result_container\<close> take the next free address.
  \<^verbatim>\<open>start\<close> followed at once by \<^verbatim>\<open>join\<close> runs the worker to its end while the handler
  does nothing else; a fault that ends the worker stays in the worker's thread
  (\<open>snd (engine t)\<close> is not read). The handler returns its result, the channels and the
  state it leaves.
\<close>

definition run_job :: "env \<Rightarrow> ConversionThread_args \<Rightarrow> bool \<Rightarrow> string \<Rightarrow> signals \<Rightarrow> prog
    \<Rightarrow> result \<times> signals \<times> prog" where
  "run_job env args is_direct_text subtitle_format sigs g =
     (let g1 = g\<lparr>calls := calls g @ [Construct args]\<rparr>
      in case ConversionThread env args of
           Inl e \<Rightarrow> (error_result e, sigs, g1)
         | Inr engine \<Rightarrow>
             (let k = next_job g1;
                  t = thread_attributes args is_direct_text subtitle_format;
                  g2 = g1\<lparr>jobs := (jobs g1)
                              (k := \<lparr>result_container_status = None,
                                     result_container_path = None,
                                     thread = t\<rparr>),
                          next_job := Suc k\<rparr>;
                  sigs' = connect_signals env k sigs;
                  g3 = g2\<lparr>calls := calls g2 @ [Start t]\<rparr>
              in case Thread_start env of
                   Some e \<Rightarrow> (error_result e, sigs', g3)
                 | None \<Rightarrow>
                     (case ConversionThread_run sigs' k (fst (engine t)) g3 of
                        None \<Rightarrow> (Hang, sigs', g3)
                      | Some g4 \<Rightarrow>
                          (let g5 = g4\<lparr>calls := calls g4 @ [Join]\<rparr>;
                               log_str = join newline (logs g5)
                           in case result_container_path (jobs g5 k) of
                                Some path \<Rightarrow>
                                  if path \<noteq> [] then (Return log_str (Some path), sigs', g5)
                                  else (Return log_str None, sigs', g5)
                              | None \<Rightarrow> (Return log_str None, sigs', g5)))))"

text \<open>
  Lines 159 to 192: the pipeline is loaded inside its own \<^verbatim>\<open>try\<close>; the output
  directory is created outside both \<^verbatim>\<open>try\<close> blocks; then the job is built.
\<close>

definition load_and_run :: "env \<Rightarrow> string \<Rightarrow> bool \<Rightarrow> string \<Rightarrow> string \<Rightarrow> string \<Rightarrow> real \<Rightarrow> string
    \<Rightarrow> string \<Rightarrow> string \<Rightarrow> signals \<Rightarrow> prog \<Rightarrow> result \<times> signals \<times> prog" where
  "load_and_run env file_name is_direct_text text_input lang_code voice speed output_format
      subtitle_mode subtitle_format sigs g =
     (let g1 = g\<lparr>logs := logs g @ [''Loading Kokoro pipeline...'']\<rparr>;
          g2 = g1\<lparr>calls := calls g1 @ [Load]\<rparr>
      in case load_numpy_kpipeline env of
           Inl e \<Rightarrow> (Return (''Error loading pipeline: '' @ exn_str e) None, sigs, g2)
         | Inr (np_module, kpipeline_class) \<Rightarrow>
             (case os_getcwd env of
                Inl e \<Rightarrow> (Raise e, sigs, g2)
              | Inr cwd \<Rightarrow>
                  (let output_folder = os_path_join cwd ''output'';
                       g3 = g2\<lparr>calls := calls g2 @ [MakeDirs output_folder]\<rparr>
                   in case os_makedirs env output_folder of
                        Some e \<Rightarrow> (Raise e, sigs, g3)
                      | None \<Rightarrow>
                          run_job env
                            (thread_kwargs env file_name is_direct_text text_input lang_code
                               voice speed output_format subtitle_mode output_folder
                               np_module kpipeline_class)
                            is_direct_text subtitle_format sigs g3)))"

text \<open>
  Lines 144 to 157, "determine input": the name of the uploaded file when there is one
  (\<open>file_input\<close> is \<open>None\<close> or the uploaded file, known by its \<^verbatim>\<open>name\<close>), else the text
  itself with \<^verbatim>\<open>is_direct_text\<close> when \<^verbatim>\<open>text_input.strip()\<close> is not empty, else nothing.
\<close>

definition determine_input :: "string \<Rightarrow> string option \<Rightarrow> (string \<times> bool) option" where
  "determine_input text_input file_input =
     (case file_input of
        Some name \<Rightarrow> Some (name, False)
      | None \<Rightarrow> if strip text_input \<noteq> [] then Some (text_input, True) else None)"

text \<open>
  \<^verbatim>\<open>run_conversion\<close>, in a process whose channels are \<open>sigs\<close> and whose state is
  \<open>g0\<close>: the handler clears \<^verbatim>\<open>logs\<close>, takes the language code, determines the input
  and returns the validation error when there is none.
\<close>

definition run_conversion :: "env \<Rightarrow> string \<Rightarrow> string option \<Rightarrow> string \<Rightarrow> string \<Rightarrow> real \<Rightarrow> string
    \<Rightarrow> string \<Rightarrow> string \<Rightarrow> string \<Rightarrow> signals \<Rightarrow> prog \<Rightarrow> result \<times> signals \<times> prog" where
  "run_conversion env text_input file_input language_str voice speed output_format
      subtitle_mode subtitle_format split_pattern sigs g0 =
     (let g = g0\<lparr>logs := []\<rparr>;
          lang_code = split_first '' - '' language_str
      in case determine_input text_input file_input of
           Some (file_name, is_direct_text) \<Rightarrow>
             load_and_run env file_name is_direct_text text_input lang_code voice speed
               output_format subtitle_mode subtitle_format sigs g
         | None \<Rightarrow> (Return ''Error: Please provide text or a file.'' None, sigs, g))"

text \<open>The channels and the state an invocation leaves to the next one.\<close>

definition signals_after :: "result \<times> signals \<times> prog \<Rightarrow> signals" where
  "signals_after r = fst (snd r)"

definition state_after :: "result \<times> signals \<times> prog \<Rightarrow> prog" where
  "state_after r = snd (snd r)"

section \<open>The life of a process\<close>

text \<open>
  A process starts with the module's globals as the import leaves them and no job
  object, and serves one request after the other; a request is the environment of an
  invocation and the values of the form.
\<close>

definition no_job :: job where
  "no_job =
     \<lparr>result_container_status = None, result_container_path = None,
      thread = thread_attributes
        \<lparr>arg_file_name = [], arg_lang_code = [], arg_speed = 0, arg_voice = [],
         arg_save_option = [], arg_output_folder = [], arg_subtitle_mode = [],
         arg_output_format = [], arg_np_module = 0, arg_kpipeline_class = 0,
         arg_start_time = 0, arg_total_char_count = 0, arg_use_gpu = False,
         arg_from_queue = False\<rparr> False []\<rparr>"

definition started :: prog where
  "started = \<lparr>stdout = [], logs = [], calls = [], jobs = (\<lambda>k. no_job), next_job = 0\<rparr>"

record request =
  req_env :: env
  req_text_input :: string
  req_file_input :: "string option"
  req_language_str :: string
  req_voice :: string
  req_speed :: real
  req_output_format :: string
  req_subtitle_mode :: string
  req_subtitle_format :: string
  req_split_pattern :: string

definition handle :: "request \<Rightarrow> signals \<times> prog \<Rightarrow> result \<times> signals \<times> prog" where
  "handle r p =
     run_conversion (req_env r) (req_text_input r) (req_file_input r) (req_language_str r)
       (req_voice r) (req_speed r) (req_output_format r) (req_subtitle_mode r)
       (req_subtitle_format r) (req_split_pattern r) (fst p) (snd p)"

fun serve :: "request list \<Rightarrow> signals \<times> prog \<Rightarrow> signals \<times> prog" where
  "serve [] p = p"
| "serve (r # rs) p = serve rs (snd (handle r p))"

section \<open>Notions used to state the properties\<close>

text \<open>The texts a run of the engine publishes on \<open>log_updated\<close>, in order.\<close>

fun log_lines :: "engine_step list \<Rightarrow> string list" where
  "log_lines [] = []"
| "log_lines (Log_updated msg # rest) = text_of msg # log_lines rest"
| "log_lines (Progress_updated p etr # rest) = log_lines rest"
| "log_lines (Chapters_detected n # rest) = log_lines rest"
| "log_lines (Conversion_finished status path # rest) = log_lines rest"

text \<open>Every line \<open>m\<close> times in a row.\<close>

definition repeated :: "nat \<Rightarrow> string list \<Rightarrow> string list" where
  "repeated m lines = concat (map (replicate m) lines)"

text \<open>
  The path the job-finished notifications leave in \<^verbatim>\<open>result_container\<close>: that of the
  last one, \<open>p\<close> when there is none.
\<close>

fun reported_path :: "engine_step list \<Rightarrow> string option \<Rightarrow> string option" where
  "reported_path [] p = p"
| "reported_path (Conversion_finished status path # rest) p = reported_path rest path"
| "reported_path (Log_updated msg # rest) p = reported_path rest p"
| "reported_path (Progress_updated q etr # rest) p = reported_path rest p"
| "reported_path (Chapters_detected n # rest) p = reported_path rest p"

text \<open>The file reference the handler returns for a container path: a non-empty one.\<close>

definition returned_file :: "string option \<Rightarrow> string option" where
  "returned_file p = (case p of Some path \<Rightarrow> if path \<noteq> [] then Some path else None | None \<Rightarrow> None)"

text \<open>
  What the channels of a process can hold when an invocation begins: the subscribers
  earlier invocations connected, whose objects are at addresses already given out.
\<close>

definition earlier_subscribers :: "nat \<Rightarrow> signals \<Rightarrow> bool" where
  "earlier_subscribers n sigs =
     (set (callbacks (log_updated sigs)) \<subseteq> {on_log}
      \<and> set (callbacks (conversion_finished sigs)) \<subseteq> on_finished ` {k. k < n}
      \<and> set (callbacks (chapters_detected sigs)) \<subseteq> on_chapters_detected ` {k. k < n}
      \<and> set (callbacks (progress_updated sigs)) \<subseteq> range on_progress)"

definition left_by_earlier_jobs :: "signals \<Rightarrow> prog \<Rightarrow> bool" where
  "left_by_earlier_jobs sigs g = earlier_subscribers (next_job g) sigs"

text \<open>
  The state in which the worker is started: the log holds the line of the loader, the
  handler has called the loader, \<^verbatim>\<open>os.makedirs\<close>, the constructor and \<^verbatim>\<open>start\<close>, and the
  objects of the job are at the address that was free.
\<close>

definition job_started :: "string \<Rightarrow> ConversionThread_args \<Rightarrow> thread \<Rightarrow> prog \<Rightarrow> prog" where
  "job_started folder args t g0 =
     g0\<lparr>logs := [''Loading Kokoro pipeline...''],
        jobs := (jobs g0)(next_job g0 :=
                  \<lparr>result_container_status = None, result_container_path = None, thread = t\<rparr>),
        next_job := Suc (next_job g0),
        calls := calls g0 @ [Load, MakeDirs folder, Construct args, Start t]\<rparr>"

text \<open>The calls an invocation added to those made before it.\<close>

definition new_calls :: "prog \<Rightarrow> result \<times> signals \<times> prog \<Rightarrow> call list" where
  "new_calls g0 r = drop (length (calls g0)) (calls (state_after r))"

section \<open>Concrete collaborators\<close>

text \<open>
  Inputs at which the theorems below are instantiated: an engine that logs, reports
  progress, detects chapters and finishes with a file; one that logs a thousand lines
  before it finishes; one that raises after its first log line; and environments built
  from them, in which a collaborator fails or not.
\<close>

definition example_steps :: "engine_step list" where
  "example_steps =
     [Log_updated (Str ''Processing''), Progress_updated 50 ''1m'', Chapters_detected 3,
      Log_updated (Tuple ''Done'' ''green''),
      Conversion_finished ''ok'' (Some ''/app/output/book.mp3'')]"

definition ok_env :: env where
  "ok_env =
     \<lparr>load_numpy_kpipeline = Inr (1, 2),
      os_getcwd = Inr ''/app'',
      os_makedirs = (\<lambda>folder. None),
      time_time = 0,
      ConversionThread = (\<lambda>args. Inr (\<lambda>t. (example_steps, None))),
      Thread_start = None,
      gr_progress = (\<lambda>fraction desc. None)\<rparr>"

definition long_steps :: "engine_step list" where
  "long_steps =
     replicate 1000 (Log_updated (Str ''x'')) @ [Conversion_finished ''ok'' (Some ''out.mp3'')]"

definition long_env :: env where
  "long_env = ok_env\<lparr>ConversionThread := (\<lambda>args. Inr (\<lambda>t. (long_steps, None)))\<rparr>"

definition boom :: exn where
  "boom = Exn ''boom'' ''Traceback (most recent call last): RuntimeError: boom''"

definition faulting_env :: env where
  "faulting_env =
     ok_env\<lparr>ConversionThread := (\<lambda>args. Inr (\<lambda>t. ([Log_updated (Str ''working'')], Some boom)))\<rparr>"

definition silent_env :: env where
  "silent_env =
     ok_env\<lparr>ConversionThread := (\<lambda>args. Inr (\<lambda>t. ([Log_updated (Str ''working'')], None)))\<rparr>"

definition no_constructor_env :: env where
  "no_constructor_env = ok_env\<lparr>ConversionThread := (\<lambda>args. Inl boom)\<rparr>"

definition no_start_env :: env where
  "no_start_env = ok_env\<lparr>Thread_start := Some boom\<rparr>"

definition no_pipeline_env :: env where
  "no_pipeline_env = ok_env\<lparr>load_numpy_kpipeline := Inl boom\<rparr>"

text \<open>A process in which an earlier invocation left a line in \<^verbatim>\<open>logs\<close>.\<close>

definition idle :: prog where
  "idle = started\<lparr>logs := [''left by the previous job'']\<rparr>"

text \<open>
  A request with a text and no file, and the process after one such request has been
  served by \<open>ok_env\<close>: its channels hold the four subscribers of that job.
\<close>

definition text_request :: "env \<Rightarrow> request" where
  "text_request env =
     \<lparr>req_env = env, req_text_input = ''hello'', req_file_input = None,
      req_language_str = ''a - American English'', req_voice = ''af_heart'', req_speed = 1,
      req_output_format = ''mp3'', req_subtitle_mode = ''Disabled'',
      req_subtitle_format = ''srt'', req_split_pattern = ''p''\<rparr>"

definition second_job :: "signals \<times> prog" where
  "second_job = serve [text_request ok_env] (fresh_signals, started)"

section \<open>Facts about the channel\<close>

lemma callbacks_connect_all: "callbacks (foldl connect self cbs) = callbacks self @ cbs"
  by (induction cbs arbitrary: self) (simp_all add: connect_def)

lemma probe_journals: "journals i (probe i out)"
  by (simp add: journals_def probe_def)

lemma probe_ends_with: "ends_with out (probe i out)"
  by (simp add: ends_with_def probe_def)

lemma emit_loop_journal:
  "(\<forall>i<length cbs. journals (k + i) (cbs ! i)) \<Longrightarrow>
   journal (emit_loop cbs args w) = journal w @ map (\<lambda>i. (i, args)) [k..<k + length cbs]"
proof (induction cbs arbitrary: k w)
  case Nil
  then show ?case by simp
next
  case (Cons cb cbs)
  have head: "journals k cb" using Cons.prems by force
  have tail: "\<forall>i<length cbs. journals (Suc k + i) (cbs ! i)"
    using Cons.prems by force
  note IH = Cons.IH[OF tail]
  obtain r w' where cbw: "cb args w = (r, w')" by (cases "cb args w")
  have j: "journal w' = journal w @ [(k, args)]"
    using head cbw unfolding journals_def by (metis snd_conv)
  have rng: "[k..<Suc (k + length cbs)] = k # [Suc k..<Suc (k + length cbs)]"
    by (rule upt_conv_Cons) simp
  show ?case
  proof (cases r)
    case None
    then show ?thesis using IH[of w'] cbw j
      by (simp add: rng del: upt_Suc)
  next
    case (Some e)
    then show ?thesis using IH[of "print (report e) w'"] cbw j
      by (simp add: rng print_def report_def del: upt_Suc)
  qed
qed

lemma emit_loop_reports:
  "length outs = length cbs \<Longrightarrow> (\<forall>i<length cbs. ends_with (outs ! i) (cbs ! i)) \<Longrightarrow>
   stdout (emit_loop cbs args w) = stdout w @ map report (List.map_filter (\<lambda>out. out) outs)"
proof (induction cbs arbitrary: outs w)
  case Nil
  then show ?case by simp
next
  case (Cons cb cbs)
  then obtain out outs' where outs: "outs = out # outs'" by (cases outs) auto
  have len: "length outs' = length cbs" using Cons.prems(1) outs by simp
  have head: "ends_with out cb" using Cons.prems(2) outs by force
  have tail: "\<forall>i<length cbs. ends_with (outs' ! i) (cbs ! i)"
    using Cons.prems(2) outs by force
  note IH = Cons.IH[OF len tail]
  obtain r w' where cbw: "cb args w = (r, w')" by (cases "cb args w")
  have r: "r = out" and s: "stdout w' = stdout w"
    using head cbw unfolding ends_with_def by (metis fst_conv, metis snd_conv)
  show ?case
  proof (cases out)
    case None
    then show ?thesis using IH[of w'] cbw r s outs
      by simp
  next
    case (Some e)
    then show ?thesis using IH[of "print (report e) w'"] cbw r s outs
      by (simp add: print_def report_def)
  qed
qed

lemma emit_loop_append:
  "emit_loop (xs @ ys) a w = emit_loop ys a (emit_loop xs a w)"
  by (induction xs arbitrary: w) (simp_all split: prod.splits option.splits)

lemma emit_connect:
  "emit (connect self cb) a w =
     (case cb a (emit self a w) of (None, w') \<Rightarrow> w'
      | (Some e, w') \<Rightarrow> print (''Error in mock signal callback: '' @ exn_str e) w')"
  by (simp add: emit_def connect_def emit_loop_append split: prod.splits option.splits)

text \<open>What no subscriber of a list changes, and printing does not change, a publish keeps.\<close>

lemma emit_loop_keeps:
  assumes "\<And>cb w. cb \<in> set cbs \<Longrightarrow> f (snd (cb a w)) = f w"
    and "\<And>line w. f (print line w) = f w"
  shows "f (emit_loop cbs a w) = f w"
  using assms(1)
proof (induction cbs arbitrary: w)
  case Nil
  then show ?case by simp
next
  case (Cons cb cbs)
  obtain r w' where cbw: "cb a w = (r, w')" by (cases "cb a w")
  have head: "f w' = f w"
    using Cons.prems[of cb w] cbw by simp
  have tail: "f (emit_loop cbs a v) = f v" for v
    using Cons.IH Cons.prems by simp
  show ?case
    using cbw head tail assms(2) by (cases r) simp_all
qed

section \<open>Facts about the log accumulator\<close>

lemma slice_last_id: "length xs \<le> n \<Longrightarrow> slice_last n xs = xs"
  by (simp add: slice_last_def)

lemma slice_last_snoc: "slice_last n (slice_last n xs @ ys) = slice_last n (xs @ ys)"
proof (cases "length xs \<le> n")
  case True
  then show ?thesis by (simp add: slice_last_def)
next
  case False
  then have "length xs + length ys - (length xs - n + n) + (length xs - n) = length xs + length ys - n"
    by arith
  with False show ?thesis by (simp add: slice_last_def)
qed

lemma length_slice_last: "length (slice_last n xs) \<le> n"
  by (simp add: slice_last_def)

lemma logs_log_callback: "logs (log_callback msg g) = slice_last 1000 (logs g @ [text_of msg])"
  by (simp add: log_callback_def Let_def slice_last_def)

lemma log_callback_frame:
  "calls (log_callback msg g) = calls g"
  "stdout (log_callback msg g) = stdout g"
  "jobs (log_callback msg g) = jobs g"
  "next_job (log_callback msg g) = next_job g"
  by (simp_all add: log_callback_def Let_def)

lemma join_Cons: "join sep (x # xs) = x @ (if xs = [] then [] else sep @ join sep xs)"
  by (cases xs) simp_all

lemma log_lines_append: "log_lines (xs @ ys) = log_lines xs @ log_lines ys"
  by (induction xs rule: log_lines.induct) simp_all

lemma log_lines_replicate: "log_lines (replicate n (Log_updated msg)) = replicate n (text_of msg)"
  by (induction n) simp_all

lemma reported_path_append: "reported_path (xs @ ys) p = reported_path ys (reported_path xs p)"
  by (induction xs p rule: reported_path.induct) simp_all

lemma reported_path_none_finished:
  "(\<And>status path. Conversion_finished status path \<notin> set steps) \<Longrightarrow> reported_path steps p = p"
  by (induction steps p rule: reported_path.induct) auto

lemma repeated_Cons: "repeated m (x # xs) = replicate m x @ repeated m xs"
  by (simp add: repeated_def)

lemma repeated_Nil: "repeated m [] = []"
  by (simp add: repeated_def)

lemma repeated_once: "repeated (Suc 0) xs = xs"
  by (induction xs) (simp_all add: repeated_def)

section \<open>Facts about the subscribers of the handler\<close>

lemma on_finished_frame:
  "logs (snd (on_finished k' a g)) = logs g"
  "calls (snd (on_finished k' a g)) = calls g"
  "next_job (snd (on_finished k' a g)) = next_job g"
  "k' \<noteq> k \<Longrightarrow> jobs (snd (on_finished k' a g)) k = jobs g k"
  by (simp_all add: on_finished_def Let_def split: prod.splits)

lemma on_finished_path:
  "result_container_path (jobs (snd (on_finished k (status, path) g)) k) = path"
  by (simp add: on_finished_def Let_def)

lemma on_log_frame:
  "calls (snd (on_log a g)) = calls g"
  "next_job (snd (on_log a g)) = next_job g"
  "jobs (snd (on_log a g)) = jobs g"
  by (simp_all add: on_log_def log_callback_def Let_def)

lemma on_progress_frame: "snd (on_progress env' a g) = g"
  by (simp add: on_progress_def split: prod.splits)

lemma on_chapters_detected_frame:
  "logs (snd (on_chapters_detected k' a g)) = logs g"
  "calls (snd (on_chapters_detected k' a g)) = calls g"
  "next_job (snd (on_chapters_detected k' a g)) = next_job g"
  "k' \<noteq> k \<Longrightarrow> jobs (snd (on_chapters_detected k' a g)) k = jobs g k"
  by (simp_all add: on_chapters_detected_def set_thread_def print_def Let_def)

lemma on_chapters_detected_sets:
  "fst (on_chapters_detected k count g) = None"
  "\<not> thread_save_chapters_separately (thread (jobs (snd (on_chapters_detected k count g)) k))"
  "thread_merge_chapters_at_end (thread (jobs (snd (on_chapters_detected k count g)) k))"
  "thread_chapter_options_event (thread (jobs (snd (on_chapters_detected k count g)) k))"
  "result_container_path (jobs (snd (on_chapters_detected k count g)) k)
     = result_container_path (jobs g k)"
  by (simp_all add: on_chapters_detected_def set_thread_def print_def Let_def)

lemma print_frame:
  "logs (print line g) = logs g"
  "calls (print line g) = calls g"
  "next_job (print line g) = next_job g"
  "jobs (print line g) = jobs g"
  by (simp_all add: print_def)

text \<open>The four channels after the handler's \<^verbatim>\<open>connect\<close> calls: its subscriber comes last.\<close>

lemma emit_log_updated:
  "emit (log_updated (connect_signals env k sigs)) msg g
     = log_callback msg (emit (log_updated sigs) msg g)"
  by (simp add: connect_signals_def emit_connect on_log_def)

lemma emit_conversion_finished:
  "emit (conversion_finished (connect_signals env k sigs)) (status, path) g
     = snd (on_finished k (status, path) (emit (conversion_finished sigs) (status, path) g))"
  by (simp add: connect_signals_def emit_connect on_finished_def Let_def)

lemma emit_progress_updated:
  "emit (progress_updated (connect_signals env k sigs)) (p, etr) g =
     (case gr_progress env (real_of_int p / 100) (''Processing... ETR: '' @ etr) of
        None \<Rightarrow> emit (progress_updated sigs) (p, etr) g
      | Some e \<Rightarrow> print (''Error in mock signal callback: '' @ exn_str e)
                    (emit (progress_updated sigs) (p, etr) g))"
  by (simp add: connect_signals_def emit_connect on_progress_def split: option.splits)

lemma emit_chapters_detected:
  "emit (chapters_detected (connect_signals env k sigs)) n g
     = snd (on_chapters_detected k n (emit (chapters_detected sigs) n g))"
  by (simp add: connect_signals_def emit_connect on_chapters_detected_def Let_def)

text \<open>
  What the subscribers of earlier jobs do when a notification is published: each
  \<^verbatim>\<open>on_log\<close> appends the line once more; the others leave the log, the calls and the
  objects of the present job alone.
\<close>

lemma earlier_on_log:
  assumes "set cbs \<subseteq> {on_log}"
  shows "logs (log_callback msg (emit_loop cbs msg g))
           = slice_last 1000 (logs g @ replicate (Suc (length cbs)) (text_of msg))"
  using assms
proof (induction cbs arbitrary: g)
  case Nil
  then show ?case by (simp add: logs_log_callback)
next
  case (Cons cb cbs)
  then have cb: "cb = on_log" and rest: "set cbs \<subseteq> {on_log}" by auto
  have "logs (log_callback msg (emit_loop (cb # cbs) msg g))
      = logs (log_callback msg (emit_loop cbs msg (log_callback msg g)))"
    by (simp add: cb on_log_def)
  also have "\<dots> = slice_last 1000 (logs (log_callback msg g) @ replicate (Suc (length cbs)) (text_of msg))"
    by (rule Cons.IH[OF rest])
  also have "\<dots> = slice_last 1000 ((logs g @ [text_of msg]) @ replicate (Suc (length cbs)) (text_of msg))"
    by (simp only: logs_log_callback slice_last_snoc)
  also have "\<dots> = slice_last 1000 (logs g @ replicate (Suc (length (cb # cbs))) (text_of msg))"
    by (simp add: replicate_append_same)
  finally show ?case .
qed

lemma earlier_on_log_keeps:
  assumes "set cbs \<subseteq> {on_log}"
  shows "calls (emit_loop cbs msg g) = calls g"
    and "next_job (emit_loop cbs msg g) = next_job g"
    and "jobs (emit_loop cbs msg g) = jobs g"
  using assms by (auto intro!: emit_loop_keeps simp add: on_log_frame print_frame)

lemma earlier_on_finished_keeps:
  assumes "set cbs \<subseteq> on_finished ` {k'. k' < k}"
  shows "logs (emit_loop cbs a g) = logs g"
    and "calls (emit_loop cbs a g) = calls g"
    and "next_job (emit_loop cbs a g) = next_job g"
    and "jobs (emit_loop cbs a g) k = jobs g k"
proof -
  have keep: "logs (snd (cb a w)) = logs w \<and> calls (snd (cb a w)) = calls w
      \<and> next_job (snd (cb a w)) = next_job w \<and> jobs (snd (cb a w)) k = jobs w k"
    if "cb \<in> set cbs" for cb w
  proof -
    from assms that have "cb \<in> on_finished ` {k'. k' < k}" by blast
    then obtain k' where "k' < k" "cb = on_finished k'" by blast
    then have "k' \<noteq> k" "cb = on_finished k'" by simp_all
    then show ?thesis by (simp add: on_finished_frame)
  qed
  show "logs (emit_loop cbs a g) = logs g"
    by (rule emit_loop_keeps) (simp_all add: keep print_frame)
  show "calls (emit_loop cbs a g) = calls g"
    by (rule emit_loop_keeps) (simp_all add: keep print_frame)
  show "next_job (emit_loop cbs a g) = next_job g"
    by (rule emit_loop_keeps) (simp_all add: keep print_frame)
  show "jobs (emit_loop cbs a g) k = jobs g k"
    by (rule emit_loop_keeps[where f = "\<lambda>g. jobs g k"]) (simp_all add: keep print_frame)
qed

lemma earlier_on_chapters_detected_keeps:
  assumes "set cbs \<subseteq> on_chapters_detected ` {k'. k' < k}"
  shows "logs (emit_loop cbs a g) = logs g"
    and "calls (emit_loop cbs a g) = calls g"
    and "next_job (emit_loop cbs a g) = next_job g"
    and "jobs (emit_loop cbs a g) k = jobs g k"
proof -
  have keep: "logs (snd (cb a w)) = logs w \<and> calls (snd (cb a w)) = calls w
      \<and> next_job (snd (cb a w)) = next_job w \<and> jobs (snd (cb a w)) k = jobs w k"
    if "cb \<in> set cbs" for cb w
  proof -
    from assms that have "cb \<in> on_chapters_detected ` {k'. k' < k}" by blast
    then obtain k' where "k' < k" "cb = on_chapters_detected k'" by blast
    then have "k' \<noteq> k" "cb = on_chapters_detected k'" by simp_all
    then show ?thesis by (simp add: on_chapters_detected_frame)
  qed
  show "logs (emit_loop cbs a g) = logs g"
    by (rule emit_loop_keeps) (simp_all add: keep print_frame)
  show "calls (emit_loop cbs a g) = calls g"
    by (rule emit_loop_keeps) (simp_all add: keep print_frame)
  show "next_job (emit_loop cbs a g) = next_job g"
    by (rule emit_loop_keeps) (simp_all add: keep print_frame)
  show "jobs (emit_loop cbs a g) k = jobs g k"
    by (rule emit_loop_keeps[where f = "\<lambda>g. jobs g k"]) (simp_all add: keep print_frame)
qed

lemma earlier_on_progress_keeps:
  assumes "set cbs \<subseteq> range on_progress"
  shows "logs (emit_loop cbs a g) = logs g"
    and "calls (emit_loop cbs a g) = calls g"
    and "next_job (emit_loop cbs a g) = next_job g"
    and "jobs (emit_loop cbs a g) = jobs g"
proof -
  have keep: "logs (snd (cb a w)) = logs w \<and> calls (snd (cb a w)) = calls w
      \<and> next_job (snd (cb a w)) = next_job w \<and> jobs (snd (cb a w)) = jobs w"
    if "cb \<in> set cbs" for cb w
  proof -
    from assms that obtain env' where "cb = on_progress env'" by auto
    then show ?thesis by (simp add: on_progress_frame)
  qed
  show "logs (emit_loop cbs a g) = logs g"
    by (rule emit_loop_keeps) (simp_all add: keep print_frame)
  show "calls (emit_loop cbs a g) = calls g"
    by (rule emit_loop_keeps) (simp_all add: keep print_frame)
  show "next_job (emit_loop cbs a g) = next_job g"
    by (rule emit_loop_keeps) (simp_all add: keep print_frame)
  show "jobs (emit_loop cbs a g) = jobs g"
    by (rule emit_loop_keeps) (simp_all add: keep print_frame)
qed

section \<open>Facts about the worker\<close>

text \<open>
  Whatever was connected before, the worker of a job whose subscribers the handler
  connected ends: its own \<^verbatim>\<open>on_chapters_detected\<close> runs last and sets the event.
\<close>

lemma chapters_detected_sets_event:
  "thread_chapter_options_event
     (thread (jobs (emit (chapters_detected (connect_signals env k sigs)) n g) k))"
  by (simp add: emit_chapters_detected on_chapters_detected_sets)

lemma run_ends:
  "\<exists>g'. ConversionThread_run (connect_signals env k sigs) k steps g = Some g'"
proof (induction steps arbitrary: g)
  case Nil
  then show ?case by simp
next
  case (Cons step steps)
  show ?case
    using Cons.IH by (cases step) (simp_all add: chapters_detected_sets_event Let_def)
qed

text \<open>
  The wait is real in the model: on channels nobody subscribed to, a worker that
  publishes "chapters detected" with the event unset blocks for ever.
\<close>

lemma worker_blocks_without_subscriber:
  "\<not> thread_chapter_options_event (thread (jobs g k)) \<Longrightarrow>
   ConversionThread_run fresh_signals k (Chapters_detected n # rest) g = None"
  by (simp add: fresh_signals_def emit_def MockSignal_init_def)

text \<open>
  With the subscribers of earlier jobs on the channels, a run of the worker leaves the
  last 1000 of the lines the connected \<^verbatim>\<open>on_log\<close> appended (each published line once
  for each of them), the last reported path in its own container, and the calls and the
  next free address as they were.
\<close>

lemma run_effect:
  assumes "earlier_subscribers k sigs"
  shows "\<exists>g'. ConversionThread_run (connect_signals env k sigs) k steps g = Some g'
     \<and> logs g' = (if log_lines steps = [] then logs g
                  else slice_last 1000 (logs g
                         @ repeated (Suc (length (callbacks (log_updated sigs)))) (log_lines steps)))
     \<and> result_container_path (jobs g' k) = reported_path steps (result_container_path (jobs g k))
     \<and> calls g' = calls g
     \<and> next_job g' = next_job g"
proof (induction steps arbitrary: g)
  case Nil
  then show ?case by simp
next
  case (Cons step steps)
  let ?m = "Suc (length (callbacks (log_updated sigs)))"
  have L: "set (callbacks (log_updated sigs)) \<subseteq> {on_log}"
    and F: "set (callbacks (conversion_finished sigs)) \<subseteq> on_finished ` {k'. k' < k}"
    and C: "set (callbacks (chapters_detected sigs)) \<subseteq> on_chapters_detected ` {k'. k' < k}"
    and P: "set (callbacks (progress_updated sigs)) \<subseteq> range on_progress"
    using assms by (simp_all add: earlier_subscribers_def)
  show ?case
  proof (cases step)
    case (Log_updated msg)
    let ?g = "emit (log_updated (connect_signals env k sigs)) msg g"
    have l: "logs ?g = slice_last 1000 (logs g @ replicate ?m (text_of msg))"
      using earlier_on_log[OF L, of msg g] unfolding emit_log_updated by (simp add: emit_def)
    have keep: "calls ?g = calls g" "next_job ?g = next_job g" "jobs ?g = jobs g"
      using earlier_on_log_keeps[OF L, of msg g] unfolding emit_log_updated
      by (simp_all add: emit_def log_callback_frame)
    from Cons.IH[of ?g] obtain g' where
      run: "ConversionThread_run (connect_signals env k sigs) k steps ?g = Some g'"
      and l': "logs g' = (if log_lines steps = [] then logs ?g
                  else slice_last 1000 (logs ?g @ repeated ?m (log_lines steps)))"
      and p': "result_container_path (jobs g' k) = reported_path steps (result_container_path (jobs ?g k))"
      and c': "calls g' = calls ?g" and n': "next_job g' = next_job ?g"
      by blast
    have "logs g' = slice_last 1000 (logs g @ repeated ?m (text_of msg # log_lines steps))"
    proof (cases "log_lines steps = []")
      case True
      with l' l show ?thesis by (simp add: repeated_Cons repeated_Nil)
    next
      case False
      with l' l have "logs g' = slice_last 1000 (slice_last 1000 (logs g @ replicate ?m (text_of msg))
          @ repeated ?m (log_lines steps))"
        by simp
      also have "\<dots> = slice_last 1000 ((logs g @ replicate ?m (text_of msg)) @ repeated ?m (log_lines steps))"
        by (rule slice_last_snoc)
      finally show ?thesis by (simp add: repeated_Cons)
    qed
    with run p' c' n' Log_updated show ?thesis by (simp add: keep)
  next
    case (Progress_updated p etr)
    let ?g = "emit (progress_updated (connect_signals env k sigs)) (p, etr) g"
    have keep: "logs ?g = logs g" "calls ?g = calls g" "next_job ?g = next_job g" "jobs ?g = jobs g"
      using earlier_on_progress_keeps[OF P, of "(p, etr)" g] unfolding emit_progress_updated
      by (simp_all add: emit_def print_frame split: option.splits)
    from Cons.IH[of ?g] Progress_updated show ?thesis by (simp add: keep cong: if_cong)
  next
    case (Chapters_detected n)
    let ?g = "emit (chapters_detected (connect_signals env k sigs)) n g"
    have keep: "logs ?g = logs g" "calls ?g = calls g" "next_job ?g = next_job g"
        "result_container_path (jobs ?g k) = result_container_path (jobs g k)"
      using earlier_on_chapters_detected_keeps[OF C, of n g] unfolding emit_chapters_detected
      by (simp_all add: emit_def on_chapters_detected_frame on_chapters_detected_sets)
    from Cons.IH[of ?g] Chapters_detected show ?thesis
      by (simp add: keep chapters_detected_sets_event Let_def cong: if_cong)
  next
    case (Conversion_finished status path)
    let ?g = "emit (conversion_finished (connect_signals env k sigs)) (status, path) g"
    have keep: "logs ?g = logs g" "calls ?g = calls g" "next_job ?g = next_job g"
        "result_container_path (jobs ?g k) = path"
      using earlier_on_finished_keeps[OF F, of "(status, path)" g]
      unfolding emit_conversion_finished
      by (simp_all add: emit_def on_finished_frame on_finished_path)
    from Cons.IH[of ?g] Conversion_finished show ?thesis by (simp add: keep cong: if_cong)
  qed
qed

section \<open>Facts about the channels of a process\<close>

lemma fresh_signals_earlier: "earlier_subscribers n fresh_signals"
  by (simp add: earlier_subscribers_def fresh_signals_def MockSignal_init_def)

lemma fresh_process: "left_by_earlier_jobs fresh_signals g"
  by (simp add: left_by_earlier_jobs_def fresh_signals_earlier)

lemma earlier_subscribers_connect:
  assumes "earlier_subscribers k sigs"
  shows "earlier_subscribers (Suc k) (connect_signals env k sigs)"
proof -
  have "on_finished ` {k'. k' < k} \<subseteq> on_finished ` {k'. k' < Suc k}"
    and "on_chapters_detected ` {k'. k' < k} \<subseteq> on_chapters_detected ` {k'. k' < Suc k}"
    by auto
  with assms show ?thesis
    by (auto simp add: earlier_subscribers_def connect_signals_def connect_def)
qed

lemma log_subscribers_connect:
  "callbacks (log_updated (connect_signals env k sigs)) = callbacks (log_updated sigs) @ [on_log]"
  by (simp add: connect_signals_def connect_def)

section \<open>Facts about the handler\<close>

lemma determine_input_Some:
  "file_input \<noteq> None \<or> strip text_input \<noteq> [] \<Longrightarrow>
   determine_input text_input file_input =
     Some ((case file_input of Some name \<Rightarrow> name | None \<Rightarrow> text_input), file_input = None)"
  by (auto simp add: determine_input_def split: option.splits)

lemma determine_input_None:
  "determine_input text_input file_input = None \<longleftrightarrow> file_input = None \<and> strip text_input = []"
  by (cases file_input) (simp_all add: determine_input_def)

text \<open>The seven ways through the handler, each with what it returns and leaves.\<close>

lemma path_refused:
  assumes "determine_input text_input file_input = None"
  shows "run_conversion env text_input file_input language_str voice speed output_format
           subtitle_mode subtitle_format split_pattern sigs g0
         = (Return ''Error: Please provide text or a file.'' None, sigs, g0\<lparr>logs := []\<rparr>)"
  using assms by (simp add: run_conversion_def)

lemma path_pipeline:
  assumes "determine_input text_input file_input = Some (file_name, is_direct_text)"
    and "load_numpy_kpipeline env = Inl e"
  shows "run_conversion env text_input file_input language_str voice speed output_format
           subtitle_mode subtitle_format split_pattern sigs g0
         = (Return (''Error loading pipeline: '' @ exn_str e) None, sigs,
            g0\<lparr>logs := [''Loading Kokoro pipeline...''], calls := calls g0 @ [Load]\<rparr>)"
  using assms by (simp add: run_conversion_def load_and_run_def Let_def)

lemma path_getcwd:
  assumes "determine_input text_input file_input = Some (file_name, is_direct_text)"
    and "load_numpy_kpipeline env = Inr (np, kp)"
    and "os_getcwd env = Inl e"
  shows "run_conversion env text_input file_input language_str voice speed output_format
           subtitle_mode subtitle_format split_pattern sigs g0
         = (Raise e, sigs,
            g0\<lparr>logs := [''Loading Kokoro pipeline...''], calls := calls g0 @ [Load]\<rparr>)"
  using assms by (simp add: run_conversion_def load_and_run_def Let_def)

lemma path_makedirs:
  assumes "determine_input text_input file_input = Some (file_name, is_direct_text)"
    and "load_numpy_kpipeline env = Inr (np, kp)"
    and "os_getcwd env = Inr cwd"
    and "os_makedirs env (os_path_join cwd ''output'') = Some e"
  shows "run_conversion env text_input file_input language_str voice speed output_format
           subtitle_mode subtitle_format split_pattern sigs g0
         = (Raise e, sigs,
            g0\<lparr>logs := [''Loading Kokoro pipeline...''],
               calls := calls g0 @ [Load, MakeDirs (os_path_join cwd ''output'')]\<rparr>)"
  using assms by (simp add: run_conversion_def load_and_run_def Let_def)

lemma path_constructor:
  assumes "determine_input text_input file_input = Some (file_name, is_direct_text)"
    and "load_numpy_kpipeline env = Inr (np, kp)"
    and "os_getcwd env = Inr cwd"
    and "os_makedirs env (os_path_join cwd ''output'') = None"
    and "args = thread_kwargs env file_name is_direct_text text_input
                 (split_first '' - '' language_str) voice speed output_format subtitle_mode
                 (os_path_join cwd ''output'') np kp"
    and "ConversionThread env args = Inl e"
  shows "run_conversion env text_input file_input language_str voice speed output_format
           subtitle_mode subtitle_format split_pattern sigs g0
         = (Return (''Error: '' @ exn_str e @ newline @ format_exc e) None, sigs,
            g0\<lparr>logs := [''Loading Kokoro pipeline...''],
               calls := calls g0 @ [Load, MakeDirs (os_path_join cwd ''output''), Construct args]\<rparr>)"
  using assms(1-4,6) assms(5)[symmetric]
  by (simp add: run_conversion_def load_and_run_def run_job_def Let_def error_result_def)

lemma path_start:
  assumes "determine_input text_input file_input = Some (file_name, is_direct_text)"
    and "load_numpy_kpipeline env = Inr (np, kp)"
    and "os_getcwd env = Inr cwd"
    and "os_makedirs env (os_path_join cwd ''output'') = None"
    and "args = thread_kwargs env file_name is_direct_text text_input
                 (split_first '' - '' language_str) voice speed output_format subtitle_mode
                 (os_path_join cwd ''output'') np kp"
    and "ConversionThread env args = Inr engine"
    and "Thread_start env = Some e"
  shows "run_conversion env text_input file_input language_str voice speed output_format
           subtitle_mode subtitle_format split_pattern sigs g0
         = (Return (''Error: '' @ exn_str e @ newline @ format_exc e) None,
            connect_signals env (next_job g0) sigs,
            job_started (os_path_join cwd ''output'') args
              (thread_attributes args is_direct_text subtitle_format) g0)"
  using assms(1-4,6,7) assms(5)[symmetric]
  by (simp add: run_conversion_def load_and_run_def run_job_def Let_def error_result_def
      job_started_def)

lemma path_joined:
  assumes "determine_input text_input file_input = Some (file_name, is_direct_text)"
    and "load_numpy_kpipeline env = Inr (np, kp)"
    and "os_getcwd env = Inr cwd"
    and "os_makedirs env (os_path_join cwd ''output'') = None"
    and "args = thread_kwargs env file_name is_direct_text text_input
                 (split_first '' - '' language_str) voice speed output_format subtitle_mode
                 (os_path_join cwd ''output'') np kp"
    and "ConversionThread env args = Inr engine"
    and "Thread_start env = None"
    and "ConversionThread_run (connect_signals env (next_job g0) sigs) (next_job g0)
           (fst (engine (thread_attributes args is_direct_text subtitle_format)))
           (job_started (os_path_join cwd ''output'') args
              (thread_attributes args is_direct_text subtitle_format) g0) = Some g4"
  shows "run_conversion env text_input file_input language_str voice speed output_format
           subtitle_mode subtitle_format split_pattern sigs g0
         = (Return (join newline (logs g4))
              (returned_file (result_container_path (jobs g4 (next_job g0)))),
            connect_signals env (next_job g0) sigs,
            g4\<lparr>calls := calls g4 @ [Join]\<rparr>)"
  using assms(1-4,6,7) assms(5)[symmetric] assms(8)[unfolded job_started_def]
  by (simp add: run_conversion_def load_and_run_def run_job_def Let_def returned_file_def
      split: option.splits)

lemma run_conversion_cases:
  fixes env text_input file_input language_str voice speed output_format subtitle_mode
    subtitle_format split_pattern sigs g0
  defines "r \<equiv> run_conversion env text_input file_input language_str voice speed output_format
           subtitle_mode subtitle_format split_pattern sigs g0"
  obtains
    (refused) "determine_input text_input file_input = None"
      "r = (Return ''Error: Please provide text or a file.'' None, sigs, g0\<lparr>logs := []\<rparr>)"
  | (pipeline) file_name is_direct_text e where
      "determine_input text_input file_input = Some (file_name, is_direct_text)"
      "load_numpy_kpipeline env = Inl e"
      "r = (Return (''Error loading pipeline: '' @ exn_str e) None, sigs,
            g0\<lparr>logs := [''Loading Kokoro pipeline...''], calls := calls g0 @ [Load]\<rparr>)"
  | (directory) file_name is_direct_text np kp e folders where
      "determine_input text_input file_input = Some (file_name, is_direct_text)"
      "load_numpy_kpipeline env = Inr (np, kp)"
      "os_getcwd env = Inl e \<and> folders = []
       \<or> (\<exists>cwd. os_getcwd env = Inr cwd \<and> os_makedirs env (os_path_join cwd ''output'') = Some e
             \<and> folders = [MakeDirs (os_path_join cwd ''output'')])"
      "r = (Raise e, sigs,
            g0\<lparr>logs := [''Loading Kokoro pipeline...''], calls := calls g0 @ Load # folders\<rparr>)"
  | (constructor) file_name is_direct_text np kp cwd args e where
      "determine_input text_input file_input = Some (file_name, is_direct_text)"
      "load_numpy_kpipeline env = Inr (np, kp)"
      "os_getcwd env = Inr cwd"
      "os_makedirs env (os_path_join cwd ''output'') = None"
      "args = thread_kwargs env file_name is_direct_text text_input
                 (split_first '' - '' language_str) voice speed output_format subtitle_mode
                 (os_path_join cwd ''output'') np kp"
      "ConversionThread env args = Inl e"
      "r = (Return (''Error: '' @ exn_str e @ newline @ format_exc e) None, sigs,
            g0\<lparr>logs := [''Loading Kokoro pipeline...''],
               calls := calls g0 @ [Load, MakeDirs (os_path_join cwd ''output''), Construct args]\<rparr>)"
  | (start) file_name is_direct_text np kp cwd args engine e where
      "determine_input text_input file_input = Some (file_name, is_direct_text)"
      "load_numpy_kpipeline env = Inr (np, kp)"
      "os_getcwd env = Inr cwd"
      "os_makedirs env (os_path_join cwd ''output'') = None"
      "args = thread_kwargs env file_name is_direct_text text_input
                 (split_first '' - '' language_str) voice speed output_format subtitle_mode
                 (os_path_join cwd ''output'') np kp"
      "ConversionThread env args = Inr engine"
      "Thread_start env = Some e"
      "r = (Return (''Error: '' @ exn_str e @ newline @ format_exc e) None,
            connect_signals env (next_job g0) sigs,
            job_started (os_path_join cwd ''output'') args
              (thread_attributes args is_direct_text subtitle_format) g0)"
  | (joined) file_name is_direct_text np kp cwd args engine g4 where
      "determine_input text_input file_input = Some (file_name, is_direct_text)"
      "load_numpy_kpipeline env = Inr (np, kp)"
      "os_getcwd env = Inr cwd"
      "os_makedirs env (os_path_join cwd ''output'') = None"
      "args = thread_kwargs env file_name is_direct_text text_input
                 (split_first '' - '' language_str) voice speed output_format subtitle_mode
                 (os_path_join cwd ''output'') np kp"
      "ConversionThread env args = Inr engine"
      "Thread_start env = None"
      "ConversionThread_run (connect_signals env (next_job g0) sigs) (next_job g0)
           (fst (engine (thread_attributes args is_direct_text subtitle_format)))
           (job_started (os_path_join cwd ''output'') args
              (thread_attributes args is_direct_text subtitle_format) g0) = Some g4"
      "r = (Return (join newline (logs g4))
              (returned_file (result_container_path (jobs g4 (next_job g0)))),
            connect_signals env (next_job g0) sigs,
            g4\<lparr>calls := calls g4 @ [Join]\<rparr>)"
proof (cases "determine_input text_input file_input")
  case None
  then show ?thesis using refused path_refused unfolding r_def by blast
next
  case (Some input)
  obtain file_name is_direct_text where inp:
    "determine_input text_input file_input = Some (file_name, is_direct_text)"
    using Some by (cases input) simp
  show ?thesis
  proof (cases "load_numpy_kpipeline env")
    case (Inl e)
    show ?thesis
      using pipeline[OF inp Inl] path_pipeline[OF inp Inl] unfolding r_def by blast
  next
    case (Inr pl)
    obtain np kp where load: "load_numpy_kpipeline env = Inr (np, kp)"
      using Inr by (cases pl) simp
    show ?thesis
    proof (cases "os_getcwd env")
      case (Inl e)
      show ?thesis
        using directory[OF inp load, of e "[]"] path_getcwd[OF inp load Inl] Inl
        unfolding r_def by simp
    next
      case cwd: (Inr cwd)
      show ?thesis
      proof (cases "os_makedirs env (os_path_join cwd ''output'')")
        case (Some e)
        show ?thesis
          using directory[OF inp load, of e "[MakeDirs (os_path_join cwd ''output'')]"]
            path_makedirs[OF inp load cwd Some] cwd Some
          unfolding r_def by simp
      next
        case mk: None
        define args where "args = thread_kwargs env file_name is_direct_text text_input
                 (split_first '' - '' language_str) voice speed output_format subtitle_mode
                 (os_path_join cwd ''output'') np kp"
        show ?thesis
        proof (cases "ConversionThread env args")
          case (Inl e)
          show ?thesis
            using constructor[OF inp load cwd mk args_def Inl]
              path_constructor[OF inp load cwd mk args_def Inl]
            unfolding r_def by blast
        next
          case con: (Inr engine)
          show ?thesis
          proof (cases "Thread_start env")
            case (Some e)
            show ?thesis
              using start[OF inp load cwd mk args_def con Some]
                path_start[OF inp load cwd mk args_def con Some]
              unfolding r_def by blast
          next
            case st: None
            obtain g4 where run:
              "ConversionThread_run (connect_signals env (next_job g0) sigs) (next_job g0)
                 (fst (engine (thread_attributes args is_direct_text subtitle_format)))
                 (job_started (os_path_join cwd ''output'') args
                    (thread_attributes args is_direct_text subtitle_format) g0) = Some g4"
              using run_ends by blast
            show ?thesis
              using joined[OF inp load cwd mk args_def con st run]
                path_joined[OF inp load cwd mk args_def con st run]
              unfolding r_def by blast
          qed
        qed
      qed
    qed
  qed
qed

text \<open>
  The same seven ways in a process whose channels hold what earlier jobs left: the
  result, the calls the invocation added, the log and the channels it leaves.
\<close>

lemma invocation_cases:
  fixes env text_input file_input language_str voice speed output_format subtitle_mode
    subtitle_format split_pattern sigs g0
  defines "r \<equiv> run_conversion env text_input file_input language_str voice speed output_format
           subtitle_mode subtitle_format split_pattern sigs g0"
  assumes inv: "left_by_earlier_jobs sigs g0"
  obtains
    (refused) "determine_input text_input file_input = None"
      "r = (Return ''Error: Please provide text or a file.'' None, sigs, g0\<lparr>logs := []\<rparr>)"
      "new_calls g0 r = []"
  | (pipeline) file_name is_direct_text e where
      "determine_input text_input file_input = Some (file_name, is_direct_text)"
      "load_numpy_kpipeline env = Inl e"
      "r = (Return (''Error loading pipeline: '' @ exn_str e) None, sigs,
            g0\<lparr>logs := [''Loading Kokoro pipeline...''], calls := calls g0 @ [Load]\<rparr>)"
      "new_calls g0 r = [Load]"
  | (directory) file_name is_direct_text np kp e folders where
      "determine_input text_input file_input = Some (file_name, is_direct_text)"
      "load_numpy_kpipeline env = Inr (np, kp)"
      "os_getcwd env = Inl e \<and> folders = []
       \<or> (\<exists>cwd. os_getcwd env = Inr cwd \<and> os_makedirs env (os_path_join cwd ''output'') = Some e
             \<and> folders = [MakeDirs (os_path_join cwd ''output'')])"
      "r = (Raise e, sigs,
            g0\<lparr>logs := [''Loading Kokoro pipeline...''], calls := calls g0 @ Load # folders\<rparr>)"
      "new_calls g0 r = Load # folders"
  | (constructor) file_name is_direct_text np kp cwd args e where
      "determine_input text_input file_input = Some (file_name, is_direct_text)"
      "load_numpy_kpipeline env = Inr (np, kp)"
      "os_getcwd env = Inr cwd"
      "os_makedirs env (os_path_join cwd ''output'') = None"
      "args = thread_kwargs env file_name is_direct_text text_input
                 (split_first '' - '' language_str) voice speed output_format subtitle_mode
                 (os_path_join cwd ''output'') np kp"
      "ConversionThread env args = Inl e"
      "r = (Return (''Error: '' @ exn_str e @ newline @ format_exc e) None, sigs,
            g0\<lparr>logs := [''Loading Kokoro pipeline...''],
               calls := calls g0 @ [Load, MakeDirs (os_path_join cwd ''output''), Construct args]\<rparr>)"
      "new_calls g0 r = [Load, MakeDirs (os_path_join cwd ''output''), Construct args]"
  | (start) file_name is_direct_text np kp cwd args engine e where
      "determine_input text_input file_input = Some (file_name, is_direct_text)"
      "load_numpy_kpipeline env = Inr (np, kp)"
      "os_getcwd env = Inr cwd"
      "os_makedirs env (os_path_join cwd ''output'') = None"
      "args = thread_kwargs env file_name is_direct_text text_input
                 (split_first '' - '' language_str) voice speed output_format subtitle_mode
                 (os_path_join cwd ''output'') np kp"
      "ConversionThread env args = Inr engine"
      "Thread_start env = Some e"
      "r = (Return (''Error: '' @ exn_str e @ newline @ format_exc e) None,
            connect_signals env (next_job g0) sigs,
            job_started (os_path_join cwd ''output'') args
              (thread_attributes args is_direct_text subtitle_format) g0)"
      "new_calls g0 r = [Load, MakeDirs (os_path_join cwd ''output''), Construct args,
          Start (thread_attributes args is_direct_text subtitle_format)]"
  | (joined) file_name is_direct_text np kp cwd args engine steps where
      "determine_input text_input file_input = Some (file_name, is_direct_text)"
      "load_numpy_kpipeline env = Inr (np, kp)"
      "os_getcwd env = Inr cwd"
      "os_makedirs env (os_path_join cwd ''output'') = None"
      "args = thread_kwargs env file_name is_direct_text text_input
                 (split_first '' - '' language_str) voice speed output_format subtitle_mode
                 (os_path_join cwd ''output'') np kp"
      "ConversionThread env args = Inr engine"
      "Thread_start env = None"
      "steps = fst (engine (thread_attributes args is_direct_text subtitle_format))"
      "fst r = Return (join newline (logs (state_after r)))
                 (returned_file (reported_path steps None))"
      "logs (state_after r) = slice_last 1000 (''Loading Kokoro pipeline...''
          # repeated (Suc (length (callbacks (log_updated sigs)))) (log_lines steps))"
      "signals_after r = connect_signals env (next_job g0) sigs"
      "next_job (state_after r) = Suc (next_job g0)"
      "new_calls g0 r = [Load, MakeDirs (os_path_join cwd ''output''), Construct args,
          Start (thread_attributes args is_direct_text subtitle_format), Join]"
proof (cases rule: run_conversion_cases[where env = env and text_input = text_input
      and file_input = file_input and language_str = language_str and voice = voice
      and speed = speed and output_format = output_format and subtitle_mode = subtitle_mode
      and subtitle_format = subtitle_format and split_pattern = split_pattern
      and sigs = sigs and ?g0.0 = g0, folded r_def])
  case 1
  then show ?thesis using refused by (simp add: new_calls_def state_after_def)
next
  case (2 file_name is_direct_text e)
  then show ?thesis using pipeline by (simp add: new_calls_def state_after_def)
next
  case (3 file_name is_direct_text np kp e folders)
  then show ?thesis using directory[of file_name is_direct_text np kp e folders]
    by (simp add: new_calls_def state_after_def)
next
  case (4 file_name is_direct_text np kp cwd args e)
  then show ?thesis using constructor by (simp add: new_calls_def state_after_def)
next
  case (5 file_name is_direct_text np kp cwd args engine e)
  then show ?thesis using start[of file_name is_direct_text np kp cwd args engine e]
    by (simp add: new_calls_def state_after_def job_started_def)
next
  case (6 file_name is_direct_text np kp cwd args engine g4)
  let ?t = "thread_attributes args is_direct_text subtitle_format"
  let ?g3 = "job_started (os_path_join cwd ''output'') args ?t g0"
  let ?steps = "fst (engine ?t)"
  have earlier: "earlier_subscribers (next_job g0) sigs"
    using inv by (simp add: left_by_earlier_jobs_def)
  from run_effect[OF earlier, of env ?steps ?g3] 6(8)
  have l: "logs g4 = (if log_lines ?steps = [] then logs ?g3
              else slice_last 1000 (logs ?g3
                     @ repeated (Suc (length (callbacks (log_updated sigs)))) (log_lines ?steps)))"
    and p: "result_container_path (jobs g4 (next_job g0))
              = reported_path ?steps (result_container_path (jobs ?g3 (next_job g0)))"
    and c: "calls g4 = calls ?g3" and n: "next_job g4 = next_job ?g3"
    by auto
  have l': "logs g4 = slice_last 1000 (''Loading Kokoro pipeline...''
          # repeated (Suc (length (callbacks (log_updated sigs)))) (log_lines ?steps))"
    using l by (simp add: job_started_def slice_last_id repeated_Nil)
  have p': "result_container_path (jobs g4 (next_job g0)) = reported_path ?steps None"
    using p by (simp add: job_started_def)
  show ?thesis
    using joined[OF 6(1-7) refl] 6(9) l' p' c n
    by (simp add: new_calls_def state_after_def signals_after_def job_started_def)
qed

text \<open>The channels stay what earlier jobs left, through every invocation and history.\<close>

lemma run_conversion_keeps_channels:
  assumes "left_by_earlier_jobs sigs g0"
  shows "left_by_earlier_jobs
     (signals_after (run_conversion env text_input file_input language_str voice speed
        output_format subtitle_mode subtitle_format split_pattern sigs g0))
     (state_after (run_conversion env text_input file_input language_str voice speed
        output_format subtitle_mode subtitle_format split_pattern sigs g0))"
proof (cases rule: invocation_cases[OF assms, where env = env and text_input = text_input
      and file_input = file_input and language_str = language_str and voice = voice
      and speed = speed and output_format = output_format and subtitle_mode = subtitle_mode
      and subtitle_format = subtitle_format and split_pattern = split_pattern])
  case (5 file_name is_direct_text np kp cwd args engine e)
  with assms earlier_subscribers_connect[of "next_job g0" sigs env] show ?thesis
    by (simp add: left_by_earlier_jobs_def signals_after_def state_after_def job_started_def)
next
  case (6 file_name is_direct_text np kp cwd args engine steps)
  with assms earlier_subscribers_connect[of "next_job g0" sigs env] show ?thesis
    by (simp add: left_by_earlier_jobs_def)
qed (use assms in \<open>simp_all add: left_by_earlier_jobs_def signals_after_def state_after_def\<close>)

lemma serve_keeps_channels:
  assumes "left_by_earlier_jobs (fst p) (snd p)"
  shows "left_by_earlier_jobs (fst (serve requests p)) (snd (serve requests p))"
  using assms
proof (induction requests arbitrary: p)
  case Nil
  then show ?case by simp
next
  case (Cons r requests)
  have "left_by_earlier_jobs (fst (snd (handle r p))) (snd (snd (handle r p)))"
    using run_conversion_keeps_channels[OF Cons.prems]
    by (simp add: handle_def signals_after_def state_after_def)
  from Cons.IH[OF this] show ?case by simp
qed

lemma process_channels:
  "left_by_earlier_jobs (fst (serve requests (fresh_signals, started)))
     (snd (serve requests (fresh_signals, started)))"
  by (rule serve_keeps_channels) (simp add: fresh_process)

text \<open>
  \<^verbatim>\<open>os.getcwd\<close> and \<^verbatim>\<open>os.makedirs\<close> are called between the two \<^verbatim>\<open>try\<close> blocks: a fault
  of theirs leaves the handler.
\<close>

lemma output_directory_fault_escapes:
  assumes "determine_input text_input file_input = Some (file_name, is_direct_text)"
    and "load_numpy_kpipeline env = Inr (np, kp)"
    and "os_getcwd env = Inl e
         \<or> os_getcwd env = Inr cwd \<and> os_makedirs env (os_path_join cwd ''output'') = Some e"
  shows "fst (run_conversion env text_input file_input language_str voice speed output_format
            subtitle_mode subtitle_format split_pattern sigs g0) = Raise e"
  using assms by (auto simp add: run_conversion_def load_and_run_def Let_def)


text \<open>An invocation only appends to the trace of calls.\<close>

lemma invocation_appends_calls:
  assumes inv: "left_by_earlier_jobs sigs g0"
  shows "calls (state_after (run_conversion env text_input file_input language_str voice speed
            output_format subtitle_mode subtitle_format split_pattern sigs g0))
         = calls g0 @ new_calls g0 (run_conversion env text_input file_input language_str voice
            speed output_format subtitle_mode subtitle_format split_pattern sigs g0)"
proof (cases rule: run_conversion_cases[where env = env and text_input = text_input
      and file_input = file_input and language_str = language_str and voice = voice
      and speed = speed and output_format = output_format and subtitle_mode = subtitle_mode
      and subtitle_format = subtitle_format and split_pattern = split_pattern
      and sigs = sigs and ?g0.0 = g0])
  case (joined file_name is_direct_text np kp cwd args engine g4)
  let ?t = "thread_attributes args is_direct_text subtitle_format"
  let ?g3 = "job_started (os_path_join cwd ''output'') args ?t g0"
  have earlier: "earlier_subscribers (next_job g0) sigs"
    using inv by (simp add: left_by_earlier_jobs_def)
  from run_effect[OF earlier, of env "fst (engine ?t)" ?g3] joined(8)
  have c: "calls g4 = calls ?g3"
    by auto
  show ?thesis
    using joined(9) c by (simp add: new_calls_def state_after_def job_started_def)
qed (simp_all add: new_calls_def state_after_def job_started_def)

text \<open>The handler when every collaborator on its own thread succeeds.\<close>

lemma run_conversion_joined:
  fixes env text_input file_input language_str voice speed output_format subtitle_mode
    subtitle_format split_pattern sigs g0
  defines "r \<equiv> run_conversion env text_input file_input language_str voice speed output_format
           subtitle_mode subtitle_format split_pattern sigs g0"
  assumes inv: "left_by_earlier_jobs sigs g0"
    and inp: "determine_input text_input file_input = Some (file_name, is_direct_text)"
    and load: "load_numpy_kpipeline env = Inr (np, kp)"
    and cwd: "os_getcwd env = Inr cwd"
    and mk: "os_makedirs env (os_path_join cwd ''output'') = None"
    and args: "args = thread_kwargs env file_name is_direct_text text_input
                 (split_first '' - '' language_str) voice speed output_format subtitle_mode
                 (os_path_join cwd ''output'') np kp"
    and con: "ConversionThread env args = Inr engine"
    and st: "Thread_start env = None"
    and steps: "steps = fst (engine (thread_attributes args is_direct_text subtitle_format))"
  shows "fst r = Return (join newline (logs (state_after r)))
                   (returned_file (reported_path steps None))"
    and "logs (state_after r) = slice_last 1000 (''Loading Kokoro pipeline...''
          # repeated (Suc (length (callbacks (log_updated sigs)))) (log_lines steps))"
    and "signals_after r = connect_signals env (next_job g0) sigs"
    and "next_job (state_after r) = Suc (next_job g0)"
    and "new_calls g0 r = [Load, MakeDirs (os_path_join cwd ''output''), Construct args,
          Start (thread_attributes args is_direct_text subtitle_format), Join]"
proof -
  have all: "fst r = Return (join newline (logs (state_after r)))
                   (returned_file (reported_path steps None))
    \<and> logs (state_after r) = slice_last 1000 (''Loading Kokoro pipeline...''
          # repeated (Suc (length (callbacks (log_updated sigs)))) (log_lines steps))
    \<and> signals_after r = connect_signals env (next_job g0) sigs
    \<and> next_job (state_after r) = Suc (next_job g0)
    \<and> new_calls g0 r = [Load, MakeDirs (os_path_join cwd ''output''), Construct args,
          Start (thread_attributes args is_direct_text subtitle_format), Join]"
  proof (cases rule: invocation_cases[OF inv, where env = env and text_input = text_input
      and file_input = file_input and language_str = language_str and voice = voice
      and speed = speed and output_format = output_format and subtitle_mode = subtitle_mode
      and subtitle_format = subtitle_format and split_pattern = split_pattern, folded r_def])
    case 1
    with inp show ?thesis by simp
  next
    case (2 file_name' is_direct_text' e)
    with load show ?thesis by simp
  next
    case (3 file_name' is_direct_text' np' kp' e folders)
    with cwd mk show ?thesis by auto
  next
    case (4 file_name' is_direct_text' np' kp' cwd' args' e)
    with inp load cwd args con show ?thesis by simp
  next
    case (5 file_name' is_direct_text' np' kp' cwd' args' engine' e)
    with st show ?thesis by simp
  next
    case (6 file_name' is_direct_text' np' kp' cwd' args' engine' steps')
    have "file_name' = file_name" "is_direct_text' = is_direct_text" "np' = np" "kp' = kp"
        "cwd' = cwd"
      using 6(1-3) inp load cwd by simp_all
    then have "args' = args" using 6(5) args by simp
    then have "engine' = engine" using 6(6) con by simp
    with 6 steps \<open>args' = args\<close> \<open>cwd' = cwd\<close> \<open>is_direct_text' = is_direct_text\<close>
    show ?thesis by simp
  qed
  then show "fst r = Return (join newline (logs (state_after r)))
                   (returned_file (reported_path steps None))"
    and "logs (state_after r) = slice_last 1000 (''Loading Kokoro pipeline...''
          # repeated (Suc (length (callbacks (log_updated sigs)))) (log_lines steps))"
    and "signals_after r = connect_signals env (next_job g0) sigs"
    and "next_job (state_after r) = Suc (next_job g0)"
    and "new_calls g0 r = [Load, MakeDirs (os_path_join cwd ''output''), Construct args,
          Start (thread_attributes args is_direct_text subtitle_format), Join]"
    by simp_all
qed

text \<open>The concrete collaborators, and the process after its first job.\<close>

lemma hello_input: "determine_input ''hello'' None = Some (''hello'', True)"
  by (simp add: determine_input_def strip_def isspace_def)

lemma ok_env_simps:
  "load_numpy_kpipeline ok_env = Inr (1, 2)"
  "os_getcwd ok_env = Inr ''/app''"
  "os_makedirs ok_env folder = None"
  "time_time ok_env = 0"
  "ConversionThread ok_env args = Inr (\<lambda>t. (example_steps, None))"
  "Thread_start ok_env = None"
  by (simp_all add: ok_env_def)

lemma output_folder: "os_path_join ''/app'' ''output'' = ''/app/output''"
  by (simp add: os_path_join_def)

lemma language_code: "split_first '' - '' ''a - American English'' = ''a''"
  by simp

lemma example_log_lines: "log_lines example_steps = [''Processing'', ''Done'']"
  by (simp add: example_steps_def text_of_def)

lemma example_reported_path:
  "reported_path example_steps None = Some ''/app/output/book.mp3''"
  by (simp add: example_steps_def)

lemma first_job_channels:
  "signals_after (handle (text_request ok_env) (fresh_signals, started))
     = connect_signals ok_env (next_job started) fresh_signals"
  using run_conversion_joined(3)[OF fresh_process hello_input ok_env_simps(1) ok_env_simps(2)
      ok_env_simps(3) refl ok_env_simps(5) ok_env_simps(6) refl,
      where language_str = "''a - American English''" and voice = "''af_heart''" and speed = 1
      and output_format = "''mp3''" and subtitle_mode = "''Disabled''"
      and subtitle_format = "''srt''" and split_pattern = "''p''" and ?g0.0 = started]
  by (simp add: handle_def text_request_def)

lemma second_job_channels:
  "left_by_earlier_jobs (fst second_job) (snd second_job)"
  "callbacks (log_updated (fst second_job)) = [on_log]"
proof -
  show "left_by_earlier_jobs (fst second_job) (snd second_job)"
    unfolding second_job_def by (rule process_channels)
  show "callbacks (log_updated (fst second_job)) = [on_log]"
    using first_job_channels
    by (simp add: second_job_def signals_after_def log_subscribers_connect fresh_signals_def
        MockSignal_init_def)
qed


text \<open>
  Once the input is accepted, the pipeline loaded and the output directory made, the
  invocation calls the constructor, and starts the thread the constructor returned.
\<close>

lemma constructor_called:
  assumes "left_by_earlier_jobs sigs g0"
    and "determine_input text_input file_input = Some (file_name, is_direct_text)"
    and "load_numpy_kpipeline env = Inr (np, kp)"
    and "os_getcwd env = Inr cwd"
    and "os_makedirs env (os_path_join cwd ''output'') = None"
    and "args = thread_kwargs env file_name is_direct_text text_input
                 (split_first '' - '' language_str) voice speed output_format subtitle_mode
                 (os_path_join cwd ''output'') np kp"
  shows "Construct args \<in> set (new_calls g0 (run_conversion env text_input file_input language_str
           voice speed output_format subtitle_mode subtitle_format split_pattern sigs g0))"
    and "ConversionThread env args = Inr engine \<Longrightarrow>
         Start (thread_attributes args is_direct_text subtitle_format)
           \<in> set (new_calls g0 (run_conversion env text_input file_input language_str
                 voice speed output_format subtitle_mode subtitle_format split_pattern sigs g0))"
proof -
  show "Construct args \<in> set (new_calls g0 (run_conversion env text_input file_input language_str
           voice speed output_format subtitle_mode subtitle_format split_pattern sigs g0))"
    using assms(2-6)
    by (cases rule: invocation_cases[OF assms(1), where env = env and text_input = text_input
          and file_input = file_input and language_str = language_str and voice = voice
          and speed = speed and output_format = output_format and subtitle_mode = subtitle_mode
          and subtitle_format = subtitle_format and split_pattern = split_pattern])
       auto
  show "Start (thread_attributes args is_direct_text subtitle_format)
           \<in> set (new_calls g0 (run_conversion env text_input file_input language_str
                 voice speed output_format subtitle_mode subtitle_format split_pattern sigs g0))"
    if "ConversionThread env args = Inr engine"
    using assms(2-6) that
    by (cases rule: invocation_cases[OF assms(1), where env = env and text_input = text_input
          and file_input = file_input and language_str = language_str and voice = voice
          and speed = speed and output_format = output_format and subtitle_mode = subtitle_mode
          and subtitle_format = subtitle_format and split_pattern = split_pattern])
       auto
qed

text \<open>
  From the second job of a process on, every published line is logged once for each job
  that connected its \<^verbatim>\<open>on_log\<close> so far: the channels are shared and nothing is
  disconnected.
\<close>

lemma second_job_logs_every_line_twice:
  "fst (handle (text_request ok_env) second_job)
   = Return (''Loading Kokoro pipeline...'' @ newline @ ''Processing'' @ newline @ ''Processing''
       @ newline @ ''Done'' @ newline @ ''Done'') (Some ''/app/output/book.mp3'')"
proof -
  note joined = run_conversion_joined(1,2)[OF second_job_channels(1) hello_input ok_env_simps(1)
      ok_env_simps(2) ok_env_simps(3) refl ok_env_simps(5) ok_env_simps(6) refl,
      where language_str = "''a - American English''" and voice = "''af_heart''" and speed = 1
      and output_format = "''mp3''" and subtitle_mode = "''Disabled''"
      and subtitle_format = "''srt''" and split_pattern = "''p''"]
  have l: "logs (state_after (handle (text_request ok_env) second_job))
      = [''Loading Kokoro pipeline...'', ''Processing'', ''Processing'', ''Done'', ''Done'']"
    using joined(2)
    by (simp add: handle_def text_request_def second_job_channels(2) example_log_lines
        repeated_def slice_last_def)
  show ?thesis
    using joined(1) l
    by (simp add: handle_def text_request_def example_reported_path returned_file_def)
qed

section \<open>The claims\<close>

text \<open>
  C1. Take any subscribers, registered one after the other with \<open>connect\<close> on a fresh
  channel, each of which journals its own invocation; whether and when they raise is
  free. One \<open>emit\<close> then invokes every registered subscriber exactly once, in
  registration order, with the payload it was given: the journal grows by the
  registration numbers \<open>0, 1, ...\<close> in order, each with the payload. \<open>emit\<close> returns
  the resulting state; no fault is raised again. When the subscribers end as \<open>outs\<close>
  says, the standard output grows by one report for each fault, in order.
\<close>

theorem emit_invokes_each_subscriber_once_in_order:
  assumes "\<forall>i<length cbs. journals i (cbs ! i)"
  shows "journal (emit (foldl connect MockSignal_init cbs) args w)
           = journal w @ map (\<lambda>i. (i, args)) [0..<length cbs]
       \<and> (length outs = length cbs \<and> (\<forall>i<length cbs. ends_with (outs ! i) (cbs ! i)) \<longrightarrow>
            stdout (emit (foldl connect MockSignal_init cbs) args w)
            = stdout w @ map (\<lambda>e. ''Error in mock signal callback: '' @ exn_str e)
                           (List.map_filter (\<lambda>out. out) outs))"
proof -
  have cbs: "callbacks (foldl connect MockSignal_init cbs) = cbs"
    by (simp add: callbacks_connect_all MockSignal_init_def)
  have rep: "report = (\<lambda>e. ''Error in mock signal callback: '' @ exn_str e)"
    by (rule ext) (simp add: report_def)
  have invoked: "journal (emit (foldl connect MockSignal_init cbs) args w)
           = journal w @ map (\<lambda>i. (i, args)) [0..<length cbs]"
    using assms emit_loop_journal[of cbs 0 args w] by (simp add: emit_def cbs)
  have reported: "stdout (emit (foldl connect MockSignal_init cbs) args w)
            = stdout w @ map (\<lambda>e. ''Error in mock signal callback: '' @ exn_str e)
                           (List.map_filter (\<lambda>out. out) outs)"
    if "length outs = length cbs" "\<forall>i<length cbs. ends_with (outs ! i) (cbs ! i)"
    using emit_loop_reports[OF that, of args w] by (simp add: emit_def cbs rep)
  from invoked reported show ?thesis by blast
qed

theorem emit_invokes_each_subscriber_once_in_order_witness:
  "journal (emit (foldl connect MockSignal_init
              [probe 0 None, probe 1 (Some boom), probe 2 None])
            ''payload'' \<lparr>stdout = [], journal = []\<rparr>)
     = [(0, ''payload''), (1, ''payload''), (2, ''payload'')]
   \<and> stdout (emit (foldl connect MockSignal_init
                [probe 0 None, probe 1 (Some boom), probe 2 None])
              ''payload'' \<lparr>stdout = [], journal = []\<rparr>)
     = [''Error in mock signal callback: boom'']"
proof -
  let ?cbs = "[probe 0 None, probe 1 (Some boom), probe 2 None] :: (string, string audit) callback list"
  have len: "length [None, Some boom, None] = length ?cbs"
    by simp
  have subs: "\<forall>i<length ?cbs. journals i (?cbs ! i)"
    using probe_journals[of 0 None] probe_journals[of 1 "Some boom"] probe_journals[of 2 None]
    by (simp add: All_less_Suc numeral_2_eq_2)
  have outs: "\<forall>i<length ?cbs. ends_with ([None, Some boom, None] ! i) (?cbs ! i)"
    using probe_ends_with[of None 0] probe_ends_with[of "Some boom" 1] probe_ends_with[of None 2]
    by (simp add: All_less_Suc numeral_2_eq_2)
  show ?thesis
    using emit_invokes_each_subscriber_once_in_order[OF subs,
        where args = "''payload''" and w = "\<lparr>stdout = [], journal = []\<rparr>"
        and outs = "[None, Some boom, None]"] len outs
    by (simp add: boom_def upt_rec)
qed

text \<open>
  C2. \<open>on_chapters_detected\<close> returns without a fault, whatever the count and the state,
  and leaves \<^verbatim>\<open>save_chapters_separately = False\<close>, \<^verbatim>\<open>merge_chapters_at_end = True\<close> and the
  decision event of its thread set. Publishing the notification on the channel the
  handler wired runs it after whatever was connected before (on fresh channels it is all
  that runs), so the thread is left with these values. The worker's wait after the
  notification therefore returns: with the handler's subscribers every run of the
  worker ends, and \<open>run_conversion\<close> never hangs.
\<close>

theorem chapters_detected_applies_defaults_and_sets_event:
  "fst (on_chapters_detected k count g) = None
   \<and> \<not> thread_save_chapters_separately (thread (jobs (snd (on_chapters_detected k count g)) k))
   \<and> thread_merge_chapters_at_end (thread (jobs (snd (on_chapters_detected k count g)) k))
   \<and> thread_chapter_options_event (thread (jobs (snd (on_chapters_detected k count g)) k))
   \<and> emit (chapters_detected (connect_signals env k sigs)) count g
       = snd (on_chapters_detected k count (emit (chapters_detected sigs) count g))
   \<and> emit (chapters_detected (connect_signals env k fresh_signals)) count g
       = snd (on_chapters_detected k count g)
   \<and> \<not> thread_save_chapters_separately
         (thread (jobs (emit (chapters_detected (connect_signals env k sigs)) count g) k))
   \<and> thread_merge_chapters_at_end
         (thread (jobs (emit (chapters_detected (connect_signals env k sigs)) count g) k))
   \<and> thread_chapter_options_event
         (thread (jobs (emit (chapters_detected (connect_signals env k sigs)) count g) k))
   \<and> ConversionThread_run (connect_signals env k sigs) k (Chapters_detected count # rest) g
       = ConversionThread_run (connect_signals env k sigs) k rest
           (emit (chapters_detected (connect_signals env k sigs)) count g)
   \<and> (\<exists>g'. ConversionThread_run (connect_signals env k sigs) k steps g = Some g')
   \<and> fst (run_conversion env text_input file_input language_str voice speed output_format
            subtitle_mode subtitle_format split_pattern sigs g0) \<noteq> Hang"
proof -
  note sub = on_chapters_detected_sets(1-4)[of k count g]
  have pub: "emit (chapters_detected (connect_signals env k sigs)) count g
       = snd (on_chapters_detected k count (emit (chapters_detected sigs) count g))"
    by (rule emit_chapters_detected)
  have fresh: "emit (chapters_detected (connect_signals env k fresh_signals)) count g
       = snd (on_chapters_detected k count g)"
    unfolding emit_chapters_detected
    by (simp add: fresh_signals_def emit_def MockSignal_init_def)
  note after = on_chapters_detected_sets(2-4)[of k count "emit (chapters_detected sigs) count g",
      folded pub]
  have wait: "ConversionThread_run (connect_signals env k sigs) k (Chapters_detected count # rest) g
       = ConversionThread_run (connect_signals env k sigs) k rest
           (emit (chapters_detected (connect_signals env k sigs)) count g)"
    by (simp add: chapters_detected_sets_event Let_def)
  have ends: "\<exists>g'. ConversionThread_run (connect_signals env k sigs) k steps g = Some g'"
    by (rule run_ends)
  have returns: "fst (run_conversion env text_input file_input language_str voice speed output_format
            subtitle_mode subtitle_format split_pattern sigs g0) \<noteq> Hang"
    by (cases rule: run_conversion_cases[where env = env and text_input = text_input
          and file_input = file_input and language_str = language_str and voice = voice
          and speed = speed and output_format = output_format and subtitle_mode = subtitle_mode
          and subtitle_format = subtitle_format and split_pattern = split_pattern
          and sigs = sigs and ?g0.0 = g0]) simp_all
  from sub pub fresh after wait ends returns show ?thesis by blast
qed

theorem chapters_detected_applies_defaults_and_sets_event_witness:
  "thread_chapter_options_event (thread (jobs (snd (on_chapters_detected 0 3 started)) 0))
   \<and> thread_chapter_options_event
        (thread (jobs (emit (chapters_detected (connect_signals ok_env 1 (fst second_job))) 3
                         (snd second_job)) 1))
   \<and> (\<exists>g'. ConversionThread_run (connect_signals ok_env 1 (fst second_job)) 1 example_steps
         (snd second_job) = Some g')
   \<and> fst (run_conversion ok_env [] (Some ''book.txt'') ''a - American English'' ''af_heart'' 1
        ''mp3'' ''Disabled'' ''srt'' ''p'' (fst second_job) (snd second_job)) \<noteq> Hang"
  using chapters_detected_applies_defaults_and_sets_event[where k = 0 and count = 3
      and g = started and env = ok_env]
    chapters_detected_applies_defaults_and_sets_event[where k = 1 and count = 3
      and g = "snd second_job" and env = ok_env and sigs = "fst second_job"
      and steps = example_steps and text_input = "[]" and file_input = "Some ''book.txt''"
      and language_str = "''a - American English''" and voice = "''af_heart''" and speed = 1
      and output_format = "''mp3''" and subtitle_mode = "''Disabled''"
      and subtitle_format = "''srt''" and split_pattern = "''p''" and ?g0.0 = "snd second_job"]
  by blast

text \<open>
  C3, as amended. When no file is uploaded and the text is empty or only whitespace,
  \<open>run_conversion\<close> returns the validation message with no file, having cleared the
  log and called no collaborator: no pipeline is loaded, no worker constructed or
  started, no subscriber connected. In every process the job proceeds (a collaborator is
  called) exactly when at least one of the two inputs is given; giving both is no error.
\<close>

theorem no_input_is_refused_before_any_worker:
  "(file_input = None \<and> strip text_input = [] \<longrightarrow>
      run_conversion env text_input file_input language_str voice speed output_format
        subtitle_mode subtitle_format split_pattern sigs g0
      = (Return ''Error: Please provide text or a file.'' None, sigs, g0\<lparr>logs := []\<rparr>))
   \<and> (left_by_earlier_jobs sigs g0 \<longrightarrow>
        (calls (state_after (run_conversion env text_input file_input language_str voice speed
                  output_format subtitle_mode subtitle_format split_pattern sigs g0)) \<noteq> calls g0)
        = (file_input \<noteq> None \<or> strip text_input \<noteq> []))"
proof -
  let ?r = "run_conversion env text_input file_input language_str voice speed output_format
        subtitle_mode subtitle_format split_pattern sigs g0"
  have refused: "?r = (Return ''Error: Please provide text or a file.'' None, sigs, g0\<lparr>logs := []\<rparr>)"
    if "file_input = None \<and> strip text_input = []"
    using that by (intro path_refused) (simp add: determine_input_None)
  have proceeds: "(calls (state_after ?r) \<noteq> calls g0) = (file_input \<noteq> None \<or> strip text_input \<noteq> [])"
    if inv: "left_by_earlier_jobs sigs g0"
  proof -
    have added: "calls (state_after ?r) = calls g0 @ new_calls g0 ?r"
      by (rule invocation_appends_calls[OF inv])
    have "(new_calls g0 ?r \<noteq> []) = (determine_input text_input file_input \<noteq> None)"
      by (cases rule: invocation_cases[OF inv, where env = env and text_input = text_input
          and file_input = file_input and language_str = language_str and voice = voice
          and speed = speed and output_format = output_format and subtitle_mode = subtitle_mode
          and subtitle_format = subtitle_format and split_pattern = split_pattern])
         simp_all
    with added show ?thesis by (simp add: determine_input_None)
  qed
  from refused proceeds show ?thesis by blast
qed

theorem no_input_is_refused_before_any_worker_witness:
  "run_conversion ok_env ''   '' None ''a - American English'' ''af_heart'' 1 ''mp3'' ''Disabled''
     ''srt'' ''p'' (fst second_job) (snd second_job)
   = (Return ''Error: Please provide text or a file.'' None, fst second_job,
      (snd second_job)\<lparr>logs := []\<rparr>)
   \<and> calls (state_after (run_conversion ok_env ''hello'' None ''a - American English'' ''af_heart''
         1 ''mp3'' ''Disabled'' ''srt'' ''p'' (fst second_job) (snd second_job)))
     \<noteq> calls (snd second_job)"
proof -
  have blank: "(None :: string option) = None \<and> strip ''   '' = []"
    by (simp add: strip_def isspace_def)
  have given: "(None :: string option) \<noteq> None \<or> strip ''hello'' \<noteq> []"
    by (simp add: strip_def isspace_def)
  from blank no_input_is_refused_before_any_worker[where file_input = None
      and text_input = "''   ''" and env = ok_env and language_str = "''a - American English''"
      and voice = "''af_heart''" and speed = 1 and output_format = "''mp3''"
      and subtitle_mode = "''Disabled''" and subtitle_format = "''srt''" and split_pattern = "''p''"
      and sigs = "fst second_job" and ?g0.0 = "snd second_job"]
  have a: "run_conversion ok_env ''   '' None ''a - American English'' ''af_heart'' 1 ''mp3'' ''Disabled''
     ''srt'' ''p'' (fst second_job) (snd second_job)
   = (Return ''Error: Please provide text or a file.'' None, fst second_job,
      (snd second_job)\<lparr>logs := []\<rparr>)"
    by simp
  from given second_job_channels(1) no_input_is_refused_before_any_worker[where file_input = None
      and text_input = "''hello''" and env = ok_env and language_str = "''a - American English''"
      and voice = "''af_heart''" and speed = 1 and output_format = "''mp3''"
      and subtitle_mode = "''Disabled''" and subtitle_format = "''srt''" and split_pattern = "''p''"
      and sigs = "fst second_job" and ?g0.0 = "snd second_job"]
  have b: "calls (state_after (run_conversion ok_env ''hello'' None ''a - American English'' ''af_heart''
         1 ''mp3'' ''Disabled'' ''srt'' ''p'' (fst second_job) (snd second_job)))
     \<noteq> calls (snd second_job)"
    by simp
  from a b show ?thesis by simp
qed

text \<open>
  C3 as stated fails: with a text and an uploaded file both given, neither empty, the job
  proceeds. The worker is constructed for the file, started and joined, and the
  handler returns the job's log and output file.
\<close>

theorem both_inputs_given_job_proceeds:
  "strip ''hello'' \<noteq> []
   \<and> Some ''/tmp/book.epub'' \<noteq> (None :: string option)
   \<and> fst (run_conversion ok_env ''hello'' (Some ''/tmp/book.epub'') ''a - American English''
        ''af_heart'' 1 ''mp3'' ''Disabled'' ''srt'' ''p'' fresh_signals started)
     = Return (''Loading Kokoro pipeline...'' @ newline @ ''Processing'' @ newline @ ''Done'')
         (Some ''/app/output/book.mp3'')
   \<and> calls (state_after (run_conversion ok_env ''hello'' (Some ''/tmp/book.epub'')
        ''a - American English'' ''af_heart'' 1 ''mp3'' ''Disabled'' ''srt'' ''p''
        fresh_signals started))
     = [Load, MakeDirs ''/app/output'',
        Construct (thread_kwargs ok_env ''/tmp/book.epub'' False ''hello'' ''a'' ''af_heart'' 1 ''mp3''
          ''Disabled'' ''/app/output'' 1 2),
        Start (thread_attributes (thread_kwargs ok_env ''/tmp/book.epub'' False ''hello'' ''a''
          ''af_heart'' 1 ''mp3'' ''Disabled'' ''/app/output'' 1 2) False ''srt''),
        Join]"
proof -
  have inp: "determine_input ''hello'' (Some ''/tmp/book.epub'') = Some (''/tmp/book.epub'', False)"
    by (simp add: determine_input_def)
  note joined = run_conversion_joined[OF fresh_process inp ok_env_simps(1) ok_env_simps(2)
      ok_env_simps(3) refl ok_env_simps(5) ok_env_simps(6) refl,
      where language_str = "''a - American English''" and voice = "''af_heart''" and speed = 1
      and output_format = "''mp3''" and subtitle_mode = "''Disabled''"
      and subtitle_format = "''srt''" and split_pattern = "''p''" and ?g0.0 = started]
  have l: "logs (state_after (run_conversion ok_env ''hello'' (Some ''/tmp/book.epub'')
        ''a - American English'' ''af_heart'' 1 ''mp3'' ''Disabled'' ''srt'' ''p''
        fresh_signals started))
      = [''Loading Kokoro pipeline...'', ''Processing'', ''Done'']"
    using joined(2)
    by (simp add: example_log_lines repeated_once slice_last_def fresh_signals_def
        MockSignal_init_def)
  have one: "fst (run_conversion ok_env ''hello'' (Some ''/tmp/book.epub'') ''a - American English''
        ''af_heart'' 1 ''mp3'' ''Disabled'' ''srt'' ''p'' fresh_signals started)
     = Return (''Loading Kokoro pipeline...'' @ newline @ ''Processing'' @ newline @ ''Done'')
         (Some ''/app/output/book.mp3'')"
    using joined(1) l by (simp add: example_reported_path returned_file_def)
  have two: "calls (state_after (run_conversion ok_env ''hello'' (Some ''/tmp/book.epub'')
        ''a - American English'' ''af_heart'' 1 ''mp3'' ''Disabled'' ''srt'' ''p''
        fresh_signals started))
     = [Load, MakeDirs ''/app/output'',
        Construct (thread_kwargs ok_env ''/tmp/book.epub'' False ''hello'' ''a'' ''af_heart'' 1 ''mp3''
          ''Disabled'' ''/app/output'' 1 2),
        Start (thread_attributes (thread_kwargs ok_env ''/tmp/book.epub'' False ''hello'' ''a''
          ''af_heart'' 1 ''mp3'' ''Disabled'' ''/app/output'' 1 2) False ''srt''),
        Join]"
    using joined(5) by (simp add: new_calls_def started_def output_folder)
  have "strip ''hello'' \<noteq> []"
    by (simp add: strip_def isspace_def)
  with one two show ?thesis by simp
qed

text \<open>
  C4, as amended. When the input is accepted, every collaborator on the handler's thread
  succeeds, and the last job-finished notification of the run carries a non-empty path,
  \<open>run_conversion\<close> returns, first, the entries of the log accumulator joined by
  newlines, and second, exactly that path. The accumulator then holds the last 1000 of
  the entries appended during the job: the line \<^verbatim>\<open>Loading Kokoro pipeline...\<close>, then the
  text of every published log line, in order, once for each \<^verbatim>\<open>on_log\<close> connected to the
  channel (one more than were connected when the job began). In the first job of a
  process that publishes fewer than 1000 lines this is the full log history of the job.
\<close>

theorem finished_job_returns_accumulated_log_and_reported_path:
  assumes "left_by_earlier_jobs sigs g0"
    and "determine_input text_input file_input = Some (file_name, is_direct_text)"
    and "load_numpy_kpipeline env = Inr (np, kp)"
    and "os_getcwd env = Inr cwd"
    and "os_makedirs env (os_path_join cwd ''output'') = None"
    and "args = thread_kwargs env file_name is_direct_text text_input
                  (split_first '' - '' language_str) voice speed output_format subtitle_mode
                  (os_path_join cwd ''output'') np kp"
    and "ConversionThread env args = Inr engine"
    and "Thread_start env = None"
    and "steps = fst (engine (thread_attributes args is_direct_text subtitle_format))"
    and "steps = before @ Conversion_finished status (Some path) # after"
    and "\<forall>status' path'. Conversion_finished status' path' \<notin> set after"
    and "path \<noteq> []"
  shows "fst (run_conversion env text_input file_input language_str voice speed output_format
            subtitle_mode subtitle_format split_pattern sigs g0)
         = Return (join newline (logs (state_after (run_conversion env text_input file_input
               language_str voice speed output_format subtitle_mode subtitle_format split_pattern
               sigs g0))))
             (Some path)
       \<and> logs (state_after (run_conversion env text_input file_input language_str voice speed
             output_format subtitle_mode subtitle_format split_pattern sigs g0))
         = slice_last 1000 (''Loading Kokoro pipeline...''
             # repeated (Suc (length (callbacks (log_updated sigs)))) (log_lines steps))
       \<and> (callbacks (log_updated sigs) = [] \<longrightarrow>
            fst (run_conversion env text_input file_input language_str voice speed output_format
              subtitle_mode subtitle_format split_pattern sigs g0)
            = Return (join newline
                        (slice_last 1000 (''Loading Kokoro pipeline...'' # log_lines steps)))
                (Some path))
       \<and> (callbacks (log_updated sigs) = [] \<and> length (log_lines steps) < 1000 \<longrightarrow>
            fst (run_conversion env text_input file_input language_str voice speed output_format
              subtitle_mode subtitle_format split_pattern sigs g0)
            = Return (join newline (''Loading Kokoro pipeline...'' # log_lines steps)) (Some path))"
proof -
  have "reported_path after (Some path) = Some path"
    using assms(11) by (intro reported_path_none_finished) blast
  then have "reported_path steps None = Some path"
    by (simp add: assms(10) reported_path_append)
  then have ret: "returned_file (reported_path steps None) = Some path"
    using assms(12) by (simp add: returned_file_def)
  have whole: "length (log_lines steps) < 1000 \<Longrightarrow>
      slice_last 1000 (''Loading Kokoro pipeline...'' # log_lines steps)
      = ''Loading Kokoro pipeline...'' # log_lines steps"
    by (simp add: slice_last_id)
  from run_conversion_joined(1,2)[OF assms(1-9), of split_pattern] ret whole
  show ?thesis by (simp add: repeated_once)
qed

theorem finished_job_returns_accumulated_log_and_reported_path_witness:
  "fst (run_conversion ok_env ''hello'' None ''a - American English'' ''af_heart'' 1 ''mp3''
     ''Disabled'' ''srt'' ''p'' fresh_signals idle)
   = Return (''Loading Kokoro pipeline...'' @ newline @ ''Processing'' @ newline @ ''Done'')
       (Some ''/app/output/book.mp3'')
   \<and> fst (run_conversion ok_env ''hello'' None ''a - American English'' ''af_heart'' 1 ''mp3''
     ''Disabled'' ''srt'' ''p'' (fst second_job) (snd second_job))
   = Return (''Loading Kokoro pipeline...'' @ newline @ ''Processing'' @ newline @ ''Processing''
       @ newline @ ''Done'' @ newline @ ''Done'') (Some ''/app/output/book.mp3'')"
proof -
  have steps: "example_steps = fst ((\<lambda>t. (example_steps, None)) u)" for u :: thread
    by simp
  have shape: "example_steps =
      [Log_updated (Str ''Processing''), Progress_updated 50 ''1m'', Chapters_detected 3,
       Log_updated (Tuple ''Done'' ''green'')]
      @ Conversion_finished ''ok'' (Some ''/app/output/book.mp3'') # []"
    by (simp add: example_steps_def)
  have last: "\<forall>status' path'. Conversion_finished status' path' \<notin> set []"
    by simp
  have path: "''/app/output/book.mp3'' \<noteq> []"
    by simp
  have none: "callbacks (log_updated fresh_signals) = []"
    by (simp add: fresh_signals_def MockSignal_init_def)
  have first: "fst (run_conversion ok_env ''hello'' None ''a - American English'' ''af_heart'' 1
      ''mp3'' ''Disabled'' ''srt'' ''p'' fresh_signals idle)
    = Return (''Loading Kokoro pipeline...'' @ newline @ ''Processing'' @ newline @ ''Done'')
       (Some ''/app/output/book.mp3'')"
    using finished_job_returns_accumulated_log_and_reported_path[OF fresh_process hello_input
        ok_env_simps(1) ok_env_simps(2) ok_env_simps(3) refl ok_env_simps(5) ok_env_simps(6)
        steps shape last path, where language_str = "''a - American English''"
        and voice = "''af_heart''" and speed = 1 and output_format = "''mp3''"
        and subtitle_mode = "''Disabled''" and subtitle_format = "''srt''"
        and split_pattern = "''p''" and ?g0.0 = idle]
    by (simp add: none example_log_lines repeated_once slice_last_def)
  have second: "fst (run_conversion ok_env ''hello'' None ''a - American English'' ''af_heart'' 1
      ''mp3'' ''Disabled'' ''srt'' ''p'' (fst second_job) (snd second_job))
    = Return (''Loading Kokoro pipeline...'' @ newline @ ''Processing'' @ newline @ ''Processing''
       @ newline @ ''Done'' @ newline @ ''Done'') (Some ''/app/output/book.mp3'')"
    using finished_job_returns_accumulated_log_and_reported_path[OF second_job_channels(1)
        hello_input ok_env_simps(1) ok_env_simps(2) ok_env_simps(3) refl ok_env_simps(5)
        ok_env_simps(6) steps shape last path, where language_str = "''a - American English''"
        and voice = "''af_heart''" and speed = 1 and output_format = "''mp3''"
        and subtitle_mode = "''Disabled''" and subtitle_format = "''srt''"
        and split_pattern = "''p''"]
    by (simp add: second_job_channels(2) example_log_lines repeated_def slice_last_def)
  from first second show ?thesis by (rule conjI)
qed

text \<open>
  C4 as stated fails for a job that logs 1000 lines before it finishes, already in the
  first job of a process: the full log history has 1001 entries, and the first component
  returned holds the last 1000 only, without the first line \<^verbatim>\<open>Loading Kokoro pipeline...\<close>.
\<close>

theorem long_job_log_is_not_the_full_history:
  "fst (run_conversion long_env ''hello'' None ''a - American English'' ''af_heart'' 1 ''mp3''
     ''Disabled'' ''srt'' ''p'' fresh_signals started)
   = Return (join newline (replicate 1000 ''x'')) (Some ''out.mp3'')
   \<and> fst (run_conversion long_env ''hello'' None ''a - American English'' ''af_heart'' 1 ''mp3''
     ''Disabled'' ''srt'' ''p'' fresh_signals started)
   \<noteq> Return (join newline (''Loading Kokoro pipeline...'' # log_lines long_steps)) (Some ''out.mp3'')"
proof -
  have load: "load_numpy_kpipeline long_env = Inr (1, 2)"
    and cwd: "os_getcwd long_env = Inr ''/app''"
    and mk: "os_makedirs long_env (os_path_join ''/app'' ''output'') = None"
    and con: "ConversionThread long_env a = Inr (\<lambda>t. (long_steps, None))"
    and st: "Thread_start long_env = None" for a
    by (simp_all add: long_env_def ok_env_def)
  have lines: "log_lines long_steps = replicate 1000 ''x''"
    by (simp add: long_steps_def log_lines_append log_lines_replicate text_of_def)
  have path: "reported_path long_steps None = Some ''out.mp3''"
    by (simp add: long_steps_def reported_path_append reported_path_none_finished)
  have kept: "slice_last 1000 (''Loading Kokoro pipeline...'' # replicate 1000 ''x'')
      = replicate 1000 ''x''"
    by (simp add: slice_last_def)
  have none: "callbacks (log_updated fresh_signals) = []"
    by (simp add: fresh_signals_def MockSignal_init_def)
  note joined = run_conversion_joined(1,2)[OF fresh_process hello_input load cwd mk refl con st refl,
        where language_str = "''a - American English''" and voice = "''af_heart''" and speed = 1
        and output_format = "''mp3''" and subtitle_mode = "''Disabled''"
        and subtitle_format = "''srt''" and split_pattern = "''p''" and ?g0.0 = started]
  have l: "logs (state_after (run_conversion long_env ''hello'' None ''a - American English''
      ''af_heart'' 1 ''mp3'' ''Disabled'' ''srt'' ''p'' fresh_signals started))
    = replicate 1000 ''x''"
    using joined(2) by (simp add: none lines repeated_once kept)
  have returned: "fst (run_conversion long_env ''hello'' None ''a - American English'' ''af_heart'' 1
      ''mp3'' ''Disabled'' ''srt'' ''p'' fresh_signals started)
    = Return (join newline (replicate 1000 ''x'')) (Some ''out.mp3'')"
    using joined(1) by (simp add: l path returned_file_def)
  have first: "replicate 1000 ''x'' = ''x'' # replicate 999 ''x''"
    by (simp add: replicate_Suc[symmetric] del: replicate_Suc)
  have "hd (join newline (replicate 1000 ''x'')) = CHR ''x''"
    by (simp add: first join_Cons)
  moreover have "hd (join newline (''Loading Kokoro pipeline...'' # replicate 1000 ''x'')) = CHR ''L''"
    by (simp add: join_Cons)
  ultimately have "join newline (replicate 1000 ''x'')
      \<noteq> join newline (''Loading Kokoro pipeline...'' # replicate 1000 ''x'')"
    by auto
  with returned lines show ?thesis by simp
qed

text \<open>
  C5. After \<open>log_callback\<close> the accumulator is the old one with the new text appended at
  its end, cut to its last 1000 entries: it never holds more than 1000, it holds exactly
  1000 once it was full, and below the bound nothing is evicted. \<open>run_conversion\<close>
  empties the accumulator when it starts: what earlier jobs left in \<^verbatim>\<open>logs\<close> has no
  effect on its result, and the accumulator it leaves holds entries of this job only. It
  is empty when the input is refused; it is the one line \<^verbatim>\<open>Loading Kokoro pipeline...\<close>
  when an input is accepted and no worker is joined; and after a worker was started and
  joined it is the last 1000 of that line followed by what \<open>log_callback\<close> appended for
  the lines the worker published.
\<close>

theorem log_accumulator_keeps_last_1000:
  "logs (log_callback msg g) = drop (length (logs g) + 1 - 1000) (logs g @ [text_of msg])
   \<and> length (logs (log_callback msg g)) \<le> 1000
   \<and> (1000 \<le> length (logs g) \<longrightarrow> length (logs (log_callback msg g)) = 1000)
   \<and> (length (logs g) < 1000 \<longrightarrow> logs (log_callback msg g) = logs g @ [text_of msg])
   \<and> run_conversion env text_input file_input language_str voice speed output_format
         subtitle_mode subtitle_format split_pattern sigs (g0\<lparr>logs := earlier\<rparr>)
       = run_conversion env text_input file_input language_str voice speed output_format
         subtitle_mode subtitle_format split_pattern sigs (g0\<lparr>logs := []\<rparr>)
   \<and> (determine_input text_input file_input = None \<longrightarrow>
        logs (state_after (run_conversion env text_input file_input language_str voice speed
                output_format subtitle_mode subtitle_format split_pattern sigs g0)) = [])
   \<and> (left_by_earlier_jobs sigs g0 \<and> determine_input text_input file_input \<noteq> None
        \<and> Join \<notin> set (new_calls g0 (run_conversion env text_input file_input language_str
              voice speed output_format subtitle_mode subtitle_format split_pattern sigs g0)) \<longrightarrow>
        logs (state_after (run_conversion env text_input file_input language_str voice speed
                output_format subtitle_mode subtitle_format split_pattern sigs g0))
        = [''Loading Kokoro pipeline...''])
   \<and> (left_by_earlier_jobs sigs g0
        \<and> Start t \<in> set (new_calls g0 (run_conversion env text_input file_input language_str
              voice speed output_format subtitle_mode subtitle_format split_pattern sigs g0))
        \<and> Join \<in> set (new_calls g0 (run_conversion env text_input file_input language_str
              voice speed output_format subtitle_mode subtitle_format split_pattern sigs g0))
        \<and> ConversionThread env (thread_args t) = Inr engine \<longrightarrow>
        logs (state_after (run_conversion env text_input file_input language_str voice speed
                output_format subtitle_mode subtitle_format split_pattern sigs g0))
        = slice_last 1000 (''Loading Kokoro pipeline...''
            # repeated (Suc (length (callbacks (log_updated sigs)))) (log_lines (fst (engine t)))))"
proof -
  let ?r = "run_conversion env text_input file_input language_str voice speed
                output_format subtitle_mode subtitle_format split_pattern sigs g0"
  have append: "logs (log_callback msg g) = drop (length (logs g) + 1 - 1000) (logs g @ [text_of msg])
   \<and> length (logs (log_callback msg g)) \<le> 1000
   \<and> (1000 \<le> length (logs g) \<longrightarrow> length (logs (log_callback msg g)) = 1000)
   \<and> (length (logs g) < 1000 \<longrightarrow> logs (log_callback msg g) = logs g @ [text_of msg])"
    by (simp add: logs_log_callback slice_last_def)
  have reset: "run_conversion env text_input file_input language_str voice speed output_format
         subtitle_mode subtitle_format split_pattern sigs (g0\<lparr>logs := earlier\<rparr>)
       = run_conversion env text_input file_input language_str voice speed output_format
         subtitle_mode subtitle_format split_pattern sigs (g0\<lparr>logs := []\<rparr>)"
    by (simp add: run_conversion_def)
  have refused: "logs (state_after ?r) = []" if "determine_input text_input file_input = None"
    by (simp add: path_refused[OF that] state_after_def)
  have unjoined: "logs (state_after ?r) = [''Loading Kokoro pipeline...'']"
    if inv: "left_by_earlier_jobs sigs g0"
      and "determine_input text_input file_input \<noteq> None" and "Join \<notin> set (new_calls g0 ?r)"
    using that(2,3)
    by (cases rule: invocation_cases[OF inv, where env = env and text_input = text_input
          and file_input = file_input and language_str = language_str and voice = voice
          and speed = speed and output_format = output_format and subtitle_mode = subtitle_mode
          and subtitle_format = subtitle_format and split_pattern = split_pattern])
       (simp_all add: state_after_def job_started_def)
  have joined: "logs (state_after ?r) = slice_last 1000 (''Loading Kokoro pipeline...''
            # repeated (Suc (length (callbacks (log_updated sigs)))) (log_lines (fst (engine t))))"
    if inv: "left_by_earlier_jobs sigs g0"
      and "Start t \<in> set (new_calls g0 ?r)" and "Join \<in> set (new_calls g0 ?r)"
      and "ConversionThread env (thread_args t) = Inr engine"
    using that(2,3,4)
    by (cases rule: invocation_cases[OF inv, where env = env and text_input = text_input
          and file_input = file_input and language_str = language_str and voice = voice
          and speed = speed and output_format = output_format and subtitle_mode = subtitle_mode
          and subtitle_format = subtitle_format and split_pattern = split_pattern])
       (auto simp add: thread_attributes_def)
  from append reset refused unjoined joined show ?thesis by blast
qed

theorem log_accumulator_keeps_last_1000_witness:
  "logs (log_callback (Tuple ''new'' ''red'') (started\<lparr>logs := replicate 1000 ''old''\<rparr>))
     = replicate 999 ''old'' @ [''new'']
   \<and> length (logs (log_callback (Tuple ''new'' ''red'')
        (started\<lparr>logs := replicate 1000 ''old''\<rparr>))) = 1000
   \<and> logs (log_callback (Str ''new'') idle) = [''left by the previous job'', ''new'']
   \<and> logs (state_after (run_conversion ok_env ''   '' None ''a - American English'' ''af_heart'' 1
        ''mp3'' ''Disabled'' ''srt'' ''p'' fresh_signals idle)) = []
   \<and> logs (state_after (run_conversion no_start_env ''hello'' None ''a - American English''
        ''af_heart'' 1 ''mp3'' ''Disabled'' ''srt'' ''p'' fresh_signals idle))
     = [''Loading Kokoro pipeline...'']
   \<and> logs (snd second_job) = [''Loading Kokoro pipeline...'', ''Processing'', ''Done'']
   \<and> logs (state_after (run_conversion ok_env ''hello'' None ''a - American English''
        ''af_heart'' 1 ''mp3'' ''Disabled'' ''srt'' ''p'' (fst second_job) (snd second_job)))
     = [''Loading Kokoro pipeline...'', ''Processing'', ''Processing'', ''Done'', ''Done'']"
proof -
  have full: "1000 \<le> length (logs (started\<lparr>logs := replicate 1000 ''old''\<rparr>))"
    by simp
  have room: "length (logs idle) < 1000"
    by (simp add: idle_def)
  have cut: "drop 1 (replicate 1000 ''old'' @ [''new'']) = replicate 999 ''old'' @ [''new'']"
    by simp
  from full log_accumulator_keeps_last_1000[where msg = "Tuple ''new'' ''red''"
      and g = "started\<lparr>logs := replicate 1000 ''old''\<rparr>"
      and text_input = "''hello''" and file_input = None
      and env = ok_env and language_str = "''a - American English''" and voice = "''af_heart''"
      and speed = 1 and output_format = "''mp3''" and subtitle_mode = "''Disabled''"
      and subtitle_format = "''srt''" and split_pattern = "''p''" and sigs = fresh_signals
      and ?g0.0 = idle and earlier = "[]" and t = "thread no_job"
      and engine = "\<lambda>t. (example_steps, None)"]
  have a: "logs (log_callback (Tuple ''new'' ''red'') (started\<lparr>logs := replicate 1000 ''old''\<rparr>))
     = replicate 999 ''old'' @ [''new'']
   \<and> length (logs (log_callback (Tuple ''new'' ''red'')
        (started\<lparr>logs := replicate 1000 ''old''\<rparr>))) = 1000"
    by (simp add: text_of_def cut)
  from room log_accumulator_keeps_last_1000[where msg = "Str ''new''" and g = idle
      and text_input = "''hello''" and file_input = None
      and env = ok_env and language_str = "''a - American English''" and voice = "''af_heart''"
      and speed = 1 and output_format = "''mp3''" and subtitle_mode = "''Disabled''"
      and subtitle_format = "''srt''" and split_pattern = "''p''" and sigs = fresh_signals
      and ?g0.0 = idle and earlier = "[]" and t = "thread no_job"
      and engine = "\<lambda>t. (example_steps, None)"]
  have b: "logs (log_callback (Str ''new'') idle) = [''left by the previous job'', ''new'']"
    by (simp add: text_of_def idle_def)
  have blank: "determine_input ''   '' None = None"
    by (simp add: determine_input_def strip_def isspace_def)
  from blank log_accumulator_keeps_last_1000[where text_input = "''   ''" and file_input = None
      and env = ok_env and language_str = "''a - American English''" and voice = "''af_heart''"
      and speed = 1 and output_format = "''mp3''" and subtitle_mode = "''Disabled''"
      and subtitle_format = "''srt''" and split_pattern = "''p''" and sigs = fresh_signals
      and ?g0.0 = idle and msg = "Str ''new''" and g = idle and earlier = "[]"
      and t = "thread no_job" and engine = "\<lambda>t. (example_steps, None)"]
  have c: "logs (state_after (run_conversion ok_env ''   '' None ''a - American English''
      ''af_heart'' 1 ''mp3'' ''Disabled'' ''srt'' ''p'' fresh_signals idle)) = []"
    by simp
  have load: "load_numpy_kpipeline no_start_env = Inr (1, 2)"
    and cwd: "os_getcwd no_start_env = Inr ''/app''"
    and mk: "os_makedirs no_start_env (os_path_join ''/app'' ''output'') = None"
    and con: "ConversionThread no_start_env a = Inr (\<lambda>t. (example_steps, None))"
    and st: "Thread_start no_start_env = Some boom" for a
    by (simp_all add: no_start_env_def ok_env_def)
  have unjoined: "Join \<notin> set (new_calls idle (run_conversion no_start_env ''hello'' None
      ''a - American English'' ''af_heart'' 1 ''mp3'' ''Disabled'' ''srt'' ''p'' fresh_signals idle))"
    by (simp add: path_start[OF hello_input load cwd mk refl con st] new_calls_def
        state_after_def job_started_def)
  from unjoined fresh_process[of idle] hello_input
    log_accumulator_keeps_last_1000[where text_input = "''hello''" and file_input = None
      and env = no_start_env and language_str = "''a - American English''"
      and voice = "''af_heart''" and speed = 1 and output_format = "''mp3''"
      and subtitle_mode = "''Disabled''" and subtitle_format = "''srt''"
      and split_pattern = "''p''" and sigs = fresh_signals and ?g0.0 = idle
      and msg = "Str ''new''" and g = idle and earlier = "[]"
      and t = "thread no_job" and engine = "\<lambda>t. (example_steps, None)"]
  have d: "logs (state_after (run_conversion no_start_env ''hello'' None ''a - American English''
        ''af_heart'' 1 ''mp3'' ''Disabled'' ''srt'' ''p'' fresh_signals idle))
     = [''Loading Kokoro pipeline...'']"
    by simp
  have left: "logs (snd second_job) = [''Loading Kokoro pipeline...'', ''Processing'', ''Done'']"
    using run_conversion_joined(2)[OF fresh_process hello_input ok_env_simps(1) ok_env_simps(2)
        ok_env_simps(3) refl ok_env_simps(5) ok_env_simps(6) refl,
        where language_str = "''a - American English''" and voice = "''af_heart''" and speed = 1
        and output_format = "''mp3''" and subtitle_mode = "''Disabled''"
        and subtitle_format = "''srt''" and split_pattern = "''p''" and ?g0.0 = started]
    by (simp add: second_job_def handle_def text_request_def state_after_def example_log_lines
        repeated_once slice_last_def fresh_signals_def MockSignal_init_def)
  note called = constructor_called(2)[OF second_job_channels(1) hello_input ok_env_simps(1)
      ok_env_simps(2) ok_env_simps(3) refl ok_env_simps(5),
      where language_str = "''a - American English''" and voice = "''af_heart''" and speed = 1
      and output_format = "''mp3''" and subtitle_mode = "''Disabled''"
      and subtitle_format = "''srt''" and split_pattern = "''p''"]
  have join: "Join \<in> set (new_calls (snd second_job) (run_conversion ok_env ''hello'' None
      ''a - American English'' ''af_heart'' 1 ''mp3'' ''Disabled'' ''srt'' ''p''
      (fst second_job) (snd second_job)))"
    using run_conversion_joined(5)[OF second_job_channels(1) hello_input ok_env_simps(1)
        ok_env_simps(2) ok_env_simps(3) refl ok_env_simps(5) ok_env_simps(6) refl,
        where language_str = "''a - American English''" and voice = "''af_heart''" and speed = 1
        and output_format = "''mp3''" and subtitle_mode = "''Disabled''"
        and subtitle_format = "''srt''" and split_pattern = "''p''"]
    by simp
  from called join second_job_channels(1) ok_env_simps(5)
    log_accumulator_keeps_last_1000[where text_input = "''hello''" and file_input = None
      and env = ok_env and language_str = "''a - American English''"
      and voice = "''af_heart''" and speed = 1 and output_format = "''mp3''"
      and subtitle_mode = "''Disabled''" and subtitle_format = "''srt''"
      and split_pattern = "''p''" and sigs = "fst second_job" and ?g0.0 = "snd second_job"
      and msg = "Str ''new''" and g = idle and earlier = "[]"
      and engine = "\<lambda>t. (example_steps, None)"
      and t = "thread_attributes (thread_kwargs ok_env ''hello'' True ''hello''
            (split_first '' - '' ''a - American English'') ''af_heart'' 1 ''mp3'' ''Disabled''
            (os_path_join ''/app'' ''output'') 1 2) True ''srt''"]
  have e: "logs (state_after (run_conversion ok_env ''hello'' None ''a - American English''
        ''af_heart'' 1 ''mp3'' ''Disabled'' ''srt'' ''p'' (fst second_job) (snd second_job)))
     = [''Loading Kokoro pipeline...'', ''Processing'', ''Processing'', ''Done'', ''Done'']"
    by (simp add: second_job_channels(2) example_log_lines repeated_def slice_last_def)
  from a b c d left e show ?thesis by simp
qed

text \<open>
  C6, as amended. In an invocation that calls the \<^verbatim>\<open>ConversionThread\<close> constructor, a
  fault raised on the handler's thread inside the \<^verbatim>\<open>try\<close> block, by the constructor or
  by \<^verbatim>\<open>thread.start()\<close>, is caught and becomes the text \<^verbatim>\<open>Error:\<close> with \<^verbatim>\<open>str(e)\<close>, a
  newline and the traceback, paired with no file. A fault that ends the worker in its
  own thread does not reach the handler: whether the run of the started thread ends in
  a fault or not, the handler returns the accumulated log text and the file of the last
  reported path. In each of these cases \<open>run_conversion\<close> returns.
\<close>

theorem faults_in_try_block_become_error_text:
  assumes "left_by_earlier_jobs sigs g0"
    and "Construct args \<in> set (new_calls g0 (run_conversion env text_input file_input
           language_str voice speed output_format subtitle_mode subtitle_format split_pattern
           sigs g0))"
  shows "(ConversionThread env args = Inl e \<longrightarrow>
            fst (run_conversion env text_input file_input language_str voice speed output_format
              subtitle_mode subtitle_format split_pattern sigs g0)
            = Return (''Error: '' @ exn_str e @ newline @ format_exc e) None)
       \<and> (ConversionThread env args = Inr engine \<and> Thread_start env = Some e \<longrightarrow>
            fst (run_conversion env text_input file_input language_str voice speed output_format
              subtitle_mode subtitle_format split_pattern sigs g0)
            = Return (''Error: '' @ exn_str e @ newline @ format_exc e) None)
       \<and> (ConversionThread env args = Inr engine \<and> Thread_start env = None
            \<and> Start t \<in> set (new_calls g0 (run_conversion env text_input file_input
                  language_str voice speed output_format subtitle_mode subtitle_format
                  split_pattern sigs g0))
            \<and> engine t = (steps, ending) \<longrightarrow>
            fst (run_conversion env text_input file_input language_str voice speed output_format
              subtitle_mode subtitle_format split_pattern sigs g0)
            = Return (join newline (logs (state_after (run_conversion env text_input file_input
                  language_str voice speed output_format subtitle_mode subtitle_format
                  split_pattern sigs g0))))
                (returned_file (reported_path steps None))
            \<and> logs (state_after (run_conversion env text_input file_input language_str voice
                  speed output_format subtitle_mode subtitle_format split_pattern sigs g0))
              = slice_last 1000 (''Loading Kokoro pipeline...''
                  # repeated (Suc (length (callbacks (log_updated sigs)))) (log_lines steps)))
       \<and> (\<exists>log_text file_ref.
            fst (run_conversion env text_input file_input language_str voice speed output_format
              subtitle_mode subtitle_format split_pattern sigs g0)
            = Return log_text file_ref)"
proof (cases rule: invocation_cases[OF assms(1), where env = env and text_input = text_input
      and file_input = file_input and language_str = language_str and voice = voice
      and speed = speed and output_format = output_format and subtitle_mode = subtitle_mode
      and subtitle_format = subtitle_format and split_pattern = split_pattern])
  case 1
  with assms(2) show ?thesis by simp
next
  case (2 file_name is_direct_text e')
  with assms(2) show ?thesis by simp
next
  case (3 file_name is_direct_text np kp e' folders)
  with assms(2) show ?thesis by auto
next
  case (4 file_name is_direct_text np kp cwd args' e')
  from assms(2) 4(8) have "args = args'"
    by simp
  with 4(6,7) show ?thesis by simp
next
  case (5 file_name is_direct_text np kp cwd args' engine' e')
  from assms(2) 5(9) have "args = args'"
    by simp
  with 5(6,7,8) show ?thesis by simp
next
  case (6 file_name is_direct_text np kp cwd args' engine' steps')
  from assms(2) 6(13) have same: "args = args'"
    by simp
  have worker: "fst (engine' t) = steps'"
    if "Start t \<in> set (new_calls g0 (run_conversion env text_input file_input
                  language_str voice speed output_format subtitle_mode subtitle_format
                  split_pattern sigs g0))"
    using that 6(8,13) by simp
  from same 6(6,7,9,10) worker show ?thesis by auto
qed

theorem faults_in_try_block_become_error_text_witness:
  "fst (run_conversion no_constructor_env ''hello'' None ''a - American English'' ''af_heart'' 1
     ''mp3'' ''Disabled'' ''srt'' ''p'' fresh_signals idle)
   = Return (''Error: boom'' @ newline @ ''Traceback (most recent call last): RuntimeError: boom'') None
   \<and> fst (run_conversion no_start_env ''hello'' None ''a - American English'' ''af_heart'' 1
     ''mp3'' ''Disabled'' ''srt'' ''p'' fresh_signals idle)
   = Return (''Error: boom'' @ newline @ ''Traceback (most recent call last): RuntimeError: boom'') None
   \<and> fst (run_conversion faulting_env ''hello'' None ''a - American English'' ''af_heart'' 1
     ''mp3'' ''Disabled'' ''srt'' ''p'' (fst second_job) (snd second_job))
   = Return (''Loading Kokoro pipeline...'' @ newline @ ''working'' @ newline @ ''working'') None"
proof -
  have load: "load_numpy_kpipeline no_constructor_env = Inr (1, 2)"
      "load_numpy_kpipeline no_start_env = Inr (1, 2)"
      "load_numpy_kpipeline faulting_env = Inr (1, 2)"
    and cwd: "os_getcwd no_constructor_env = Inr ''/app''"
      "os_getcwd no_start_env = Inr ''/app''"
      "os_getcwd faulting_env = Inr ''/app''"
    and mk: "os_makedirs no_constructor_env (os_path_join ''/app'' ''output'') = None"
      "os_makedirs no_start_env (os_path_join ''/app'' ''output'') = None"
      "os_makedirs faulting_env (os_path_join ''/app'' ''output'') = None"
    by (simp_all add: no_constructor_env_def no_start_env_def faulting_env_def ok_env_def)
  have con: "ConversionThread no_constructor_env a = Inl boom"
      "ConversionThread no_start_env a = Inr (\<lambda>t. (example_steps, None))"
      "ConversionThread faulting_env a = Inr (\<lambda>t. ([Log_updated (Str ''working'')], Some boom))"
    and st: "Thread_start no_start_env = Some boom" "Thread_start faulting_env = None" for a
    by (simp_all add: no_constructor_env_def no_start_env_def faulting_env_def ok_env_def)
  note called1 = constructor_called(1)[OF fresh_process hello_input load(1) cwd(1) mk(1) refl,
      where language_str = "''a - American English''" and voice = "''af_heart''"
        and speed = 1 and output_format = "''mp3''" and subtitle_mode = "''Disabled''"
        and subtitle_format = "''srt''" and split_pattern = "''p''" and ?g0.0 = idle]
  note called2 = constructor_called(1)[OF fresh_process hello_input load(2) cwd(2) mk(2) refl,
      where language_str = "''a - American English''" and voice = "''af_heart''"
        and speed = 1 and output_format = "''mp3''" and subtitle_mode = "''Disabled''"
        and subtitle_format = "''srt''" and split_pattern = "''p''" and ?g0.0 = idle]
  note called3 = constructor_called[OF second_job_channels(1) hello_input load(3) cwd(3) mk(3) refl,
      where language_str = "''a - American English''" and voice = "''af_heart''"
        and speed = 1 and output_format = "''mp3''" and subtitle_mode = "''Disabled''"
        and subtitle_format = "''srt''" and split_pattern = "''p''"]
  have a: "fst (run_conversion no_constructor_env ''hello'' None ''a - American English'' ''af_heart'' 1
     ''mp3'' ''Disabled'' ''srt'' ''p'' fresh_signals idle)
   = Return (''Error: boom'' @ newline @ ''Traceback (most recent call last): RuntimeError: boom'') None"
    using faults_in_try_block_become_error_text[OF fresh_process called1, where e = boom] con(1)
    by (simp add: boom_def)
  have b: "fst (run_conversion no_start_env ''hello'' None ''a - American English'' ''af_heart'' 1
     ''mp3'' ''Disabled'' ''srt'' ''p'' fresh_signals idle)
   = Return (''Error: boom'' @ newline @ ''Traceback (most recent call last): RuntimeError: boom'') None"
    using faults_in_try_block_become_error_text[OF fresh_process called2, where e = boom
        and engine = "\<lambda>t. (example_steps, None)"] con(2) st(1)
    by (simp add: boom_def)
  note w = faults_in_try_block_become_error_text[OF second_job_channels(1) called3(1),
        where engine = "\<lambda>t. ([Log_updated (Str ''working'')], Some boom)"
        and steps = "[Log_updated (Str ''working'')]" and ending = "Some boom"
        and t = "thread_attributes (thread_kwargs faulting_env ''hello'' True ''hello''
            (split_first '' - '' ''a - American English'') ''af_heart'' 1 ''mp3'' ''Disabled''
            (os_path_join ''/app'' ''output'') 1 2) True ''srt''"]
  have c: "fst (run_conversion faulting_env ''hello'' None ''a - American English'' ''af_heart'' 1
     ''mp3'' ''Disabled'' ''srt'' ''p'' (fst second_job) (snd second_job))
   = Return (''Loading Kokoro pipeline...'' @ newline @ ''working'' @ newline @ ''working'') None"
    using w called3(2)[OF con(3)] con(3) st(2)
    by (simp add: second_job_channels(2) text_of_def repeated_def slice_last_def returned_file_def)
  from a b c show ?thesis by simp
qed

text \<open>
  C6 as stated fails for a fault raised during execution, in the worker: the engine logs
  one line and raises \<open>boom\<close>; the handler returns the log text, which says nothing of
  the fault, where the claim has the error text built from it.
\<close>

theorem worker_fault_is_not_reported:
  "ConversionThread faulting_env
       (thread_kwargs faulting_env ''hello'' True ''hello'' ''a'' ''af_heart'' 1 ''mp3'' ''Disabled''
          ''/app/output'' 1 2)
     = Inr (\<lambda>t. ([Log_updated (Str ''working'')], Some boom))
   \<and> fst (run_conversion faulting_env ''hello'' None ''a - American English'' ''af_heart'' 1
     ''mp3'' ''Disabled'' ''srt'' ''p'' fresh_signals started)
   = Return (''Loading Kokoro pipeline...'' @ newline @ ''working'') None
   \<and> fst (run_conversion faulting_env ''hello'' None ''a - American English'' ''af_heart'' 1
     ''mp3'' ''Disabled'' ''srt'' ''p'' fresh_signals started)
   \<noteq> Return (''Error: '' @ exn_str boom @ newline @ format_exc boom) None"
proof -
  have load: "load_numpy_kpipeline faulting_env = Inr (1, 2)"
    and cwd: "os_getcwd faulting_env = Inr ''/app''"
    and mk: "os_makedirs faulting_env (os_path_join ''/app'' ''output'') = None"
    and con: "ConversionThread faulting_env a = Inr (\<lambda>t. ([Log_updated (Str ''working'')], Some boom))"
    and st: "Thread_start faulting_env = None" for a
    by (simp_all add: faulting_env_def ok_env_def)
  have none: "callbacks (log_updated fresh_signals) = []"
    by (simp add: fresh_signals_def MockSignal_init_def)
  note joined = run_conversion_joined(1,2)[OF fresh_process hello_input load cwd mk refl con st refl,
        where language_str = "''a - American English''" and voice = "''af_heart''" and speed = 1
        and output_format = "''mp3''" and subtitle_mode = "''Disabled''"
        and subtitle_format = "''srt''" and split_pattern = "''p''" and ?g0.0 = started]
  have l: "logs (state_after (run_conversion faulting_env ''hello'' None ''a - American English''
      ''af_heart'' 1 ''mp3'' ''Disabled'' ''srt'' ''p'' fresh_signals started))
    = [''Loading Kokoro pipeline...'', ''working'']"
    using joined(2) by (simp add: none text_of_def repeated_once slice_last_def)
  have returned: "fst (run_conversion faulting_env ''hello'' None ''a - American English''
      ''af_heart'' 1 ''mp3'' ''Disabled'' ''srt'' ''p'' fresh_signals started)
    = Return (''Loading Kokoro pipeline...'' @ newline @ ''working'') None"
    using joined(1) by (simp add: l returned_file_def)
  with con show ?thesis by (simp add: boom_def)
qed

text \<open>
  C7. When an input is given and \<^verbatim>\<open>load_numpy_kpipeline\<close> raises \<open>e\<close>, \<open>run_conversion\<close>
  returns the message \<^verbatim>\<open>Error loading pipeline:\<close> followed by \<^verbatim>\<open>str(e)\<close>, with no file;
  the loader is the only collaborator called, so no worker is constructed or started,
  and the channels are as they were.
\<close>

theorem pipeline_load_fault_is_reported:
  assumes "file_input \<noteq> None \<or> strip text_input \<noteq> []"
    and "load_numpy_kpipeline env = Inl e"
  shows "run_conversion env text_input file_input language_str voice speed output_format
           subtitle_mode subtitle_format split_pattern sigs g0
         = (Return (''Error loading pipeline: '' @ exn_str e) None, sigs,
            g0\<lparr>logs := [''Loading Kokoro pipeline...''], calls := calls g0 @ [Load]\<rparr>)"
  using path_pipeline[OF determine_input_Some[OF assms(1)] assms(2)] .

theorem pipeline_load_fault_is_reported_witness:
  "run_conversion no_pipeline_env ''hello'' None ''a - American English'' ''af_heart'' 1 ''mp3''
     ''Disabled'' ''srt'' ''p'' fresh_signals idle
   = (Return ''Error loading pipeline: boom'' None, fresh_signals,
      idle\<lparr>logs := [''Loading Kokoro pipeline...''], calls := [Load]\<rparr>)"
proof -
  have given: "(None :: string option) \<noteq> None \<or> strip ''hello'' \<noteq> []"
    by (simp add: strip_def isspace_def)
  have load: "load_numpy_kpipeline no_pipeline_env = Inl boom"
    by (simp add: no_pipeline_env_def)
  show ?thesis
    using pipeline_load_fault_is_reported[OF given load, where language_str = "''a - American English''"
        and voice = "''af_heart''" and speed = 1 and output_format = "''mp3''"
        and subtitle_mode = "''Disabled''" and subtitle_format = "''srt''" and split_pattern = "''p''"
        and sigs = fresh_signals and ?g0.0 = idle]
    by (simp add: boom_def idle_def started_def)
qed

text \<open>
  C8. When the input is accepted, every collaborator on the handler's thread succeeds,
  and the worker runs to its end without ever publishing the job-finished notification,
  the path of \<^verbatim>\<open>result_container\<close> stays unset and \<open>run_conversion\<close> returns the
  accumulated log text, the entries of the log accumulator joined by newlines, with no
  file. The accumulator holds the last 1000 of the entries appended during the job:
  \<^verbatim>\<open>Loading Kokoro pipeline...\<close>, then every published line once for each \<^verbatim>\<open>on_log\<close>
  connected to the channel.
\<close>

theorem unfinished_job_returns_log_without_file:
  assumes "left_by_earlier_jobs sigs g0"
    and "determine_input text_input file_input = Some (file_name, is_direct_text)"
    and "load_numpy_kpipeline env = Inr (np, kp)"
    and "os_getcwd env = Inr cwd"
    and "os_makedirs env (os_path_join cwd ''output'') = None"
    and "args = thread_kwargs env file_name is_direct_text text_input
                  (split_first '' - '' language_str) voice speed output_format subtitle_mode
                  (os_path_join cwd ''output'') np kp"
    and "ConversionThread env args = Inr engine"
    and "Thread_start env = None"
    and "steps = fst (engine (thread_attributes args is_direct_text subtitle_format))"
    and "\<forall>status path. Conversion_finished status path \<notin> set steps"
  shows "fst (run_conversion env text_input file_input language_str voice speed output_format
            subtitle_mode subtitle_format split_pattern sigs g0)
         = Return (join newline (logs (state_after (run_conversion env text_input file_input
               language_str voice speed output_format subtitle_mode subtitle_format split_pattern
               sigs g0))))
             None
       \<and> logs (state_after (run_conversion env text_input file_input language_str voice speed
            output_format subtitle_mode subtitle_format split_pattern sigs g0))
         = slice_last 1000 (''Loading Kokoro pipeline...''
             # repeated (Suc (length (callbacks (log_updated sigs)))) (log_lines steps))
       \<and> (callbacks (log_updated sigs) = [] \<longrightarrow>
            fst (run_conversion env text_input file_input language_str voice speed output_format
              subtitle_mode subtitle_format split_pattern sigs g0)
            = Return (join newline
                        (slice_last 1000 (''Loading Kokoro pipeline...'' # log_lines steps)))
                None)"
proof -
  have "reported_path steps None = None"
    using assms(10) by (intro reported_path_none_finished) blast
  then have "returned_file (reported_path steps None) = None"
    by (simp add: returned_file_def)
  with run_conversion_joined(1,2)[OF assms(1-9), of split_pattern]
  show ?thesis by (simp add: repeated_once)
qed

theorem unfinished_job_returns_log_without_file_witness:
  "fst (run_conversion silent_env ''hello'' None ''a - American English'' ''af_heart'' 1 ''mp3''
     ''Disabled'' ''srt'' ''p'' fresh_signals idle)
   = Return (''Loading Kokoro pipeline...'' @ newline @ ''working'') None
   \<and> fst (run_conversion silent_env ''hello'' None ''a - American English'' ''af_heart'' 1 ''mp3''
     ''Disabled'' ''srt'' ''p'' (fst second_job) (snd second_job))
   = Return (''Loading Kokoro pipeline...'' @ newline @ ''working'' @ newline @ ''working'') None"
proof -
  have load: "load_numpy_kpipeline silent_env = Inr (1, 2)"
    and cwd: "os_getcwd silent_env = Inr ''/app''"
    and mk: "os_makedirs silent_env (os_path_join ''/app'' ''output'') = None"
    and con: "ConversionThread silent_env a = Inr (\<lambda>t. ([Log_updated (Str ''working'')], None))"
    and st: "Thread_start silent_env = None" for a
    by (simp_all add: silent_env_def ok_env_def)
  have steps: "[Log_updated (Str ''working'')]
      = fst ((\<lambda>t. ([Log_updated (Str ''working'')], None :: exn option)) u)" for u :: thread
    by simp
  have never: "\<forall>status path. Conversion_finished status path \<notin> set [Log_updated (Str ''working'')]"
    by simp
  have none: "callbacks (log_updated fresh_signals) = []"
    by (simp add: fresh_signals_def MockSignal_init_def)
  have first: "fst (run_conversion silent_env ''hello'' None ''a - American English'' ''af_heart'' 1
      ''mp3'' ''Disabled'' ''srt'' ''p'' fresh_signals idle)
    = Return (''Loading Kokoro pipeline...'' @ newline @ ''working'') None"
    using unfinished_job_returns_log_without_file[OF fresh_process hello_input load cwd mk refl
        con st steps never, where language_str = "''a - American English''"
        and voice = "''af_heart''" and speed = 1 and output_format = "''mp3''"
        and subtitle_mode = "''Disabled''" and subtitle_format = "''srt''"
        and split_pattern = "''p''" and ?g0.0 = idle]
    by (simp add: none text_of_def repeated_once slice_last_def)
  have second: "fst (run_conversion silent_env ''hello'' None ''a - American English'' ''af_heart'' 1
      ''mp3'' ''Disabled'' ''srt'' ''p'' (fst second_job) (snd second_job))
    = Return (''Loading Kokoro pipeline...'' @ newline @ ''working'' @ newline @ ''working'') None"
    using unfinished_job_returns_log_without_file[OF second_job_channels(1) hello_input load cwd
        mk refl con st steps never, where language_str = "''a - American English''"
        and voice = "''af_heart''" and speed = 1 and output_format = "''mp3''"
        and subtitle_mode = "''Disabled''" and subtitle_format = "''srt''"
        and split_pattern = "''p''"]
    by (simp add: second_job_channels(2) text_of_def repeated_def slice_last_def)
  from first second show ?thesis by (rule conjI)
qed

text \<open>
  C10. With an uploaded file the text payload is not read: the handler behaves the same
  for every text, empty or not, so giving both is no validation error. The input is
  determined as the file's name with \<^verbatim>\<open>is_direct_text = False\<close>; once the pipeline is
  loaded and the output directory made, the worker is constructed with
  \<^verbatim>\<open>file_name\<close> the file's name and the character count 1000, and, when the constructor
  returns, started with \<^verbatim>\<open>is_direct_text\<close> set to \<open>False\<close>, in every process.
\<close>

theorem uploaded_file_takes_precedence:
  assumes "load_numpy_kpipeline env = Inr (np, kp)"
    and "os_getcwd env = Inr cwd"
    and "os_makedirs env (os_path_join cwd ''output'') = None"
    and "args = thread_kwargs env name False text_input (split_first '' - '' language_str) voice
                  speed output_format subtitle_mode (os_path_join cwd ''output'') np kp"
  shows "run_conversion env text_input (Some name) language_str voice speed output_format
           subtitle_mode subtitle_format split_pattern sigs g0
         = run_conversion env other_text (Some name) language_str voice speed output_format
           subtitle_mode subtitle_format split_pattern sigs g0
       \<and> determine_input text_input (Some name) = Some (name, False)
       \<and> arg_file_name args = name
       \<and> arg_total_char_count args = 1000
       \<and> \<not> thread_is_direct_text (thread_attributes args False subtitle_format)
       \<and> (left_by_earlier_jobs sigs g0 \<longrightarrow>
           prefix (calls g0 @ [Load, MakeDirs (os_path_join cwd ''output''), Construct args])
            (calls (state_after (run_conversion env text_input (Some name) language_str voice
               speed output_format subtitle_mode subtitle_format split_pattern sigs g0))))
       \<and> (left_by_earlier_jobs sigs g0 \<and> (\<exists>engine. ConversionThread env args = Inr engine) \<longrightarrow>
           prefix (calls g0 @ [Load, MakeDirs (os_path_join cwd ''output''), Construct args,
                     Start (thread_attributes args False subtitle_format)])
             (calls (state_after (run_conversion env text_input (Some name) language_str voice
                speed output_format subtitle_mode subtitle_format split_pattern sigs g0))))"
proof -
  have inp: "determine_input text_input (Some name) = Some (name, False)"
    by (simp add: determine_input_def)
  have load: "load_and_run env name False text_input lc voice speed output_format subtitle_mode
        subtitle_format sigs g
      = load_and_run env name False other_text lc voice speed output_format subtitle_mode
        subtitle_format sigs g" for lc g
    unfolding load_and_run_def thread_kwargs_def if_False by (rule refl)
  have same: "run_conversion env text_input (Some name) language_str voice speed output_format
           subtitle_mode subtitle_format split_pattern sigs g0
         = run_conversion env other_text (Some name) language_str voice speed output_format
           subtitle_mode subtitle_format split_pattern sigs g0"
    by (simp add: run_conversion_def determine_input_def load)
  have fields: "arg_file_name args = name \<and> arg_total_char_count args = 1000
      \<and> \<not> thread_is_direct_text (thread_attributes args False subtitle_format)"
    by (simp add: assms(4) thread_kwargs_def thread_attributes_def)
  let ?r = "run_conversion env text_input (Some name) language_str voice speed
               output_format subtitle_mode subtitle_format split_pattern sigs g0"
  let ?t = "thread_attributes args False subtitle_format"
  let ?out = "os_path_join cwd ''output''"
  have new: "((\<exists>e. ConversionThread env args = Inl e)
        \<and> new_calls g0 ?r = [Load, MakeDirs ?out, Construct args])
      \<or> (\<exists>rest. new_calls g0 ?r = [Load, MakeDirs ?out, Construct args, Start ?t] @ rest)"
    if inv: "left_by_earlier_jobs sigs g0"
    using inp assms
    by (cases rule: invocation_cases[OF inv, where env = env and text_input = text_input
          and file_input = "Some name" and language_str = language_str and voice = voice
          and speed = speed and output_format = output_format and subtitle_mode = subtitle_mode
          and subtitle_format = subtitle_format and split_pattern = split_pattern])
       auto
  have constructed: "prefix (calls g0 @ [Load, MakeDirs ?out, Construct args])
      (calls (state_after ?r))"
    if inv: "left_by_earlier_jobs sigs g0"
    using new[OF inv] unfolding invocation_appends_calls[OF inv]
    by (auto simp add: prefix_def)
  have started: "prefix (calls g0 @ [Load, MakeDirs ?out, Construct args, Start ?t])
      (calls (state_after ?r))"
    if inv: "left_by_earlier_jobs sigs g0" and con: "\<exists>engine. ConversionThread env args = Inr engine"
    using new[OF inv] con unfolding invocation_appends_calls[OF inv]
    by (auto simp add: prefix_def)
  from same inp fields constructed started show ?thesis by blast
qed

theorem uploaded_file_takes_precedence_witness:
  "run_conversion ok_env ''hello'' (Some ''/tmp/book.epub'') ''a - American English'' ''af_heart'' 1
     ''mp3'' ''Disabled'' ''srt'' ''p'' (fst second_job) (snd second_job)
   = run_conversion ok_env [] (Some ''/tmp/book.epub'') ''a - American English'' ''af_heart'' 1
     ''mp3'' ''Disabled'' ''srt'' ''p'' (fst second_job) (snd second_job)
   \<and> determine_input ''hello'' (Some ''/tmp/book.epub'') = Some (''/tmp/book.epub'', False)
   \<and> prefix (calls (snd second_job) @ [Load, MakeDirs ''/app/output'',
        Construct \<lparr>arg_file_name = ''/tmp/book.epub'', arg_lang_code = ''a'', arg_speed = 1,
          arg_voice = ''af_heart'', arg_save_option = ''Choose output folder'',
          arg_output_folder = ''/app/output'', arg_subtitle_mode = ''Disabled'',
          arg_output_format = ''mp3'', arg_np_module = 1, arg_kpipeline_class = 2,
          arg_start_time = 0, arg_total_char_count = 1000, arg_use_gpu = True,
          arg_from_queue = False\<rparr>,
        Start \<lparr>thread_args =
            \<lparr>arg_file_name = ''/tmp/book.epub'', arg_lang_code = ''a'', arg_speed = 1,
             arg_voice = ''af_heart'', arg_save_option = ''Choose output folder'',
             arg_output_folder = ''/app/output'', arg_subtitle_mode = ''Disabled'',
             arg_output_format = ''mp3'', arg_np_module = 1, arg_kpipeline_class = 2,
             arg_start_time = 0, arg_total_char_count = 1000, arg_use_gpu = True,
             arg_from_queue = False\<rparr>,
          thread_is_direct_text = False, thread_subtitle_format = ''srt'',
          thread_merge_chapters_at_end = True, thread_save_chapters_separately = False,
          thread_replace_single_newlines = False, thread_chapter_options_event = False\<rparr>])
      (calls (state_after (run_conversion ok_env ''hello'' (Some ''/tmp/book.epub'')
         ''a - American English'' ''af_heart'' 1 ''mp3'' ''Disabled'' ''srt'' ''p''
         (fst second_job) (snd second_job))))"
proof -
  have con: "\<exists>engine. ConversionThread ok_env a = Inr engine" for a
    by (simp add: ok_env_def)
  have t0: "time_time ok_env = 0"
    by (simp add: ok_env_def)
  note w = uploaded_file_takes_precedence[OF ok_env_simps(1) ok_env_simps(2) ok_env_simps(3) refl,
        where name = "''/tmp/book.epub''"
        and text_input = "''hello''" and other_text = "[]" and language_str = "''a - American English''"
        and voice = "''af_heart''" and speed = 1 and output_format = "''mp3''"
        and subtitle_mode = "''Disabled''" and subtitle_format = "''srt''" and split_pattern = "''p''"
        and sigs = "fst second_job" and ?g0.0 = "snd second_job"]
  have a: "run_conversion ok_env ''hello'' (Some ''/tmp/book.epub'') ''a - American English'' ''af_heart'' 1
     ''mp3'' ''Disabled'' ''srt'' ''p'' (fst second_job) (snd second_job)
   = run_conversion ok_env [] (Some ''/tmp/book.epub'') ''a - American English'' ''af_heart'' 1
     ''mp3'' ''Disabled'' ''srt'' ''p'' (fst second_job) (snd second_job)"
    using w by (rule conjunct1)
  have b: "determine_input ''hello'' (Some ''/tmp/book.epub'') = Some (''/tmp/book.epub'', False)
   \<and> prefix (calls (snd second_job) @ [Load, MakeDirs ''/app/output'',
        Construct \<lparr>arg_file_name = ''/tmp/book.epub'', arg_lang_code = ''a'', arg_speed = 1,
          arg_voice = ''af_heart'', arg_save_option = ''Choose output folder'',
          arg_output_folder = ''/app/output'', arg_subtitle_mode = ''Disabled'',
          arg_output_format = ''mp3'', arg_np_module = 1, arg_kpipeline_class = 2,
          arg_start_time = 0, arg_total_char_count = 1000, arg_use_gpu = True,
          arg_from_queue = False\<rparr>,
        Start \<lparr>thread_args =
            \<lparr>arg_file_name = ''/tmp/book.epub'', arg_lang_code = ''a'', arg_speed = 1,
             arg_voice = ''af_heart'', arg_save_option = ''Choose output folder'',
             arg_output_folder = ''/app/output'', arg_subtitle_mode = ''Disabled'',
             arg_output_format = ''mp3'', arg_np_module = 1, arg_kpipeline_class = 2,
             arg_start_time = 0, arg_total_char_count = 1000, arg_use_gpu = True,
             arg_from_queue = False\<rparr>,
          thread_is_direct_text = False, thread_subtitle_format = ''srt'',
          thread_merge_chapters_at_end = True, thread_save_chapters_separately = False,
          thread_replace_single_newlines = False, thread_chapter_options_event = False\<rparr>])
      (calls (state_after (run_conversion ok_env ''hello'' (Some ''/tmp/book.epub'')
         ''a - American English'' ''af_heart'' 1 ''mp3'' ''Disabled'' ''srt'' ''p''
         (fst second_job) (snd second_job))))"
    using w[THEN conjunct2] con second_job_channels(1)
    by (simp add: thread_kwargs_def thread_attributes_def output_folder language_code t0)
  show ?thesis
    by (rule conjI[OF a b])
qed

end
